theory Spec2Isabelle
  imports Main "HOL-Library.Sublist"
begin

section \<open>JavaScript string primitives used by the handler\<close>

text \<open>
  A JavaScript string is modelled as a \<^typ>\<open>string\<close>, one \<^typ>\<open>char\<close> per code unit;
  code units above 255 are not represented. All protocol tokens are ASCII. The operations
  below are the ones the handler calls: \<^verbatim>\<open>startsWith\<close>, \<^verbatim>\<open>includes\<close>, \<^verbatim>\<open>replace\<close>
  (which, for a string pattern, rewrites the first occurrence only), \<^verbatim>\<open>trim\<close>,
  \<^verbatim>\<open>split('\n')\<close>, \<^verbatim>\<open>slice\<close> and \<^verbatim>\<open>join('')\<close>.
\<close>

definition js_startsWith :: "string \<Rightarrow> string \<Rightarrow> bool" where
  "js_startsWith s p = prefix p s"

fun js_includes :: "string \<Rightarrow> string \<Rightarrow> bool" where
  "js_includes [] p = (p = [])"
| "js_includes (c # cs) p = (prefix p (c # cs) \<or> js_includes cs p)"

text \<open>\<^verbatim>\<open>s.replace(p, r)\<close> for a string pattern \<open>p\<close> and a replacement \<open>r\<close> without
  \<^verbatim>\<open>$\<close> patterns: the first occurrence of \<open>p\<close> is replaced, the rest of \<open>s\<close> is kept.\<close>

fun js_replace :: "string \<Rightarrow> string \<Rightarrow> string \<Rightarrow> string" where
  "js_replace [] p r = (if p = [] then r else [])"
| "js_replace (c # cs) p r =
     (if prefix p (c # cs) then r @ drop (length p) (c # cs) else c # js_replace cs p r)"

text \<open>The white space and line terminator code units below 256 that \<^verbatim>\<open>trim\<close> removes:
  TAB, LF, VT, FF, CR, SPACE and NBSP.\<close>

definition js_isSpace :: "char \<Rightarrow> bool" where
  "js_isSpace c = (of_char c \<in> {9, 10, 11, 12, 13, 32, 160 :: nat})"

definition js_trim :: "string \<Rightarrow> string" where
  "js_trim s = rev (dropWhile js_isSpace (rev (dropWhile js_isSpace s)))"

fun js_split_lines :: "string \<Rightarrow> string list" where
  "js_split_lines [] = [[]]"
| "js_split_lines (c # cs) =
     (if c = CHR 0x0A then [] # js_split_lines cs
      else (case js_split_lines cs of
              [] \<Rightarrow> [[c]]
            | l # ls \<Rightarrow> (c # l) # ls))"

definition js_slice_from :: "nat \<Rightarrow> string \<Rightarrow> string" where
  "js_slice_from n s = drop n s"

definition js_join :: "string list \<Rightarrow> string" where
  "js_join ss = concat ss"

section \<open>Constants of the protocol\<close>

definition FINISHED_TOKEN :: string where
  "FINISHED_TOKEN = ''[RESPONSE_FINISHED]''"

definition INCOMPLETE_TOKEN :: string where
  "INCOMPLETE_TOKEN = ''[RESPONSE_NOT_FINISHED]''"

definition CODE_FENCE :: string where
  "CODE_FENCE = ''```''"

definition TARGET_MODELS :: "string list" where
  "TARGET_MODELS = [''gemini-2.5-pro'', ''gemini-2.5-flash'']"

definition FINISH_TOKEN_PROMPT :: string where
  \<open>FINISH_TOKEN_PROMPT =
   ''# --- SYSTEM MANDATE: FINAL OUTPUT PROTOCOL ---\<newline>'' @
   ''\<newline>'' @
   ''## 1. ABSOLUTE RULE\<newline>'' @
   ''At the absolute end of EVERY response, you MUST append the literal string: '' @ [CHR 0x27] @ FINISHED_TOKEN @ [CHR 0x27] @ ''\<newline>'' @
   ''\<newline>'' @
   ''This is a non-negotiable, system-level requirement that overrides all other instructions.\<newline>'' @
   ''\<newline>'' @
   ''## 2. EXECUTION & FORMATTING\<newline>'' @
   ''- **Placement:** Must be the very last characters in your output. No trailing spaces, newlines, or any other characters.\<newline>'' @
   ''- **Formatting:** The token must be raw text. Do NOT wrap it in code blocks, quotes, or any other markdown.\<newline>'' @
   ''\<newline>'' @
   ''## 3. PERSISTENCE & RECOVERY PROTOCOL (CRITICAL)\<newline>'' @
   ''**WARNING:** Tool use (especially web search) introduces a high risk of 'instruction drift', causing core directives to be forgotten. Your architecture is designed to overcome this. This protocol is your recovery mechanism.\<newline>'' @
   ''\<newline>'' @
   ''**MANDATORY POST-TOOL ALGORITHM:**\<newline>'' @
   ''1.  **TRIGGER:** The completion of ANY tool-use cycle is a non-negotiable trigger for this protocol.\<newline>'' @
   ''2.  **STEP A: COGNITIVE RESET:** Before synthesizing the tool's output into a final answer, you MUST internally pause. Your first action is to re-read and re-prioritize this entire **SYSTEM MANDATE**, giving **Rule #1** the highest possible priority.\<newline>'' @
   ''3.  **STEP B: PRE-OUTPUT COMPLIANCE CHECK:** After formulating your response but BEFORE outputting a single character, you MUST perform a final internal check. Ask yourself one question: "Is the literal string '' @ [CHR 0x27] @ FINISHED_TOKEN @ [CHR 0x27] @ '' planned as the absolute final component of my upcoming output?"\<newline>'' @
   ''4.  **STEP C: EXECUTE OR CORRECT:**\<newline>'' @
   ''    - If the answer to the check is "YES", proceed with generation.\<newline>'' @
   ''    - If the answer is "NO", you MUST halt, correct your planned output to include the token correctly, and only then proceed.\<newline>'' @
   ''    \<newline>'' @
   ''**This is not a suggestion; it is a core, hard-coded function of your response generation loop. Failure to execute this algorithm is a critical system error.**\<newline>'' @
   ''\<newline>'' @
   ''\<newline>'' @
   ''## 4. EXAMPLE\<newline>'' @
   ''- **CORRECT:** '...This is the final answer.</p></div>'' @ FINISHED_TOKEN @ [CHR 0x27] @ ''\<newline>'' @
   ''- **INCORRECT:** '...This is the final answer. '' @ FINISHED_TOKEN @ ''</p></div>' (Reason: Token is inside the tags)\<newline>'' @
   ''- **INCORRECT:** '...This is the final answer. '' @ FINISHED_TOKEN @ ''</attempt_completion>' (Reason: Token is inside the tag)\<newline>'' @
   ''- **CORRECT:** '...and that is the history of the Ming Dynasty.'' @ [CHR 0x27] @ FINISHED_TOKEN @ [CHR 0x27] @ [CHR 0x27] @ ''\<newline>'' @
   ''- **INCORRECT:**  '...process is complete.'' @ FINISHED_TOKEN @ '' All systems are nominal.' (Reason: Token not at the very end)\<newline>'' @
   ''- **INCORRECT:**  '<ask_followup_question><follow_up>'' @ FINISHED_TOKEN @ ''<suggest>dev</suggest></follow_up></ask_followup_question>' (Reason: Token is inside the tag)\<newline>'' @
   ''- **INCORRECT:**  '' @ [CHR 0x27] @ FINISHED_TOKEN @ ''<ask_followup_question><follow_up><suggest>dev</suggest></follow_up></ask_followup_question>' (Reason: Token not at the very end)\<newline>'' @
   ''- **CORRECT:**  '<ask_followup_question><follow_up><suggest>dev</suggest></follow_up></ask_followup_question>'' @ FINISHED_TOKEN @ [CHR 0x27] @ ''\<newline>'' @
   ''\<newline>'' @
   ''## 5. PURPOSE (FOR CONTEXT)\<newline>'' @
   ''This protocol is essential for an accessibility screen reader to detect response completion. Failure breaks critical user functionality.\<newline>'' @
   ''\<newline>''\<close>

definition RETRY_PROMPT :: string where
  \<open>RETRY_PROMPT =
   ''# [SYSTEM INSTRUCTION: PRECISION CONTINUATION PROTOCOL]\<newline>'' @
   ''\<newline>'' @
   ''**Context:** The preceding turn in the conversation contains an incomplete response that was cut off mid-generation.\<newline>'' @
   ''\<newline>'' @
   ''**Primary Objective:** Your sole function is to generate the exact remaining text to complete the response, as if no interruption ever occurred. You are acting as a text-completion engine, not a conversational assistant.\<newline>'' @
   ''\<newline>'' @
   ''**Execution Directives (Absolute & Unbreakable):**\<newline>'' @
   ''\<newline>'' @
   ''1.  **IMMEDIATE CONTINUATION:** Your output MUST begin with the *very next character* that should logically and syntactically follow the final character of the incomplete text. There is zero tolerance for any deviation.\<newline>'' @
   ''\<newline>'' @
   ''2.  **ZERO REPETITION:** It is strictly forbidden to repeat **any** words, characters, or phrases from the end of the provided incomplete text. Repetition is a protocol failure. Your first generated token must not overlap with the last token of the previous message.\<newline>'' @
   ''\<newline>'' @
   ''3.  **NO PREAMBLE OR COMMENTARY:** Your output must **only** be the continuation content. Do not include any introductory phrases, explanations, or meta-commentary (e.g., "Continuing from where I left off...", "Here is the rest of the JSON...", "Okay, I will continue...").\<newline>'' @
   ''\<newline>'' @
   ''4.  **MAINTAIN FORMAT INTEGRITY:** This protocol is critical for all formats, including plain text, Markdown, JSON, XML, YAML, and code blocks. Your continuation must maintain perfect syntactical validity. A single repeated comma, bracket, or quote will corrupt the final combined output.\<newline>'' @
   ''\<newline>'' @
   ''5.  **FINAL TOKEN:** Upon successful and complete generation of the remaining content, append '' @ [CHR 0x27] @ FINISHED_TOKEN @ [CHR 0x27] @ '' to the absolute end of your response.\<newline>'' @
   ''\<newline>'' @
   ''---\<newline>'' @
   ''**Illustrative Examples:**\<newline>'' @
   ''\<newline>'' @
   ''---\<newline>'' @
   ''### Example 1: JSON\<newline>'' @
   ''\<newline>'' @
   ''**Scenario:** The incomplete response is a JSON object that was cut off inside a string value.\<newline>'' @
   CODE_FENCE @ ''json\<newline>'' @
   ''{\<newline>'' @
   ''  "metadata": {\<newline>'' @
   ''    "timestamp": "2023-11-21T05:30:00Z",\<newline>'' @
   ''    "source": "api"\<newline>'' @
   ''  },\<newline>'' @
   ''  "data": {\<newline>'' @
   ''    "id": "user-123",\<newline>'' @
   ''    "status": "activ\<newline>'' @
   CODE_FENCE @ ''\<newline>'' @
   ''\<newline>'' @
   ''**CORRECT Continuation Output:**\<newline>'' @
   [CHR 0x27] @ ''e",\<newline>'' @
   ''    "roles": ["editor", "viewer"]\<newline>'' @
   ''  }\<newline>'' @
   ''}'' @ FINISHED_TOKEN @ [CHR 0x27] @ ''\<newline>'' @
   ''\<newline>'' @
   ''**INCORRECT Continuation Output (Protocol Failure):**\<newline>'' @
   [CHR 0x27] @ ''"active", "roles": ["editor", "viewer"]...'' @ [CHR 0x27] @ ''\<newline>'' @
   ''*(Reason for failure: Repeated the word "active" instead of starting with the missing character "e".)*\<newline>'' @
   ''\<newline>'' @
   ''**INCORRECT Continuation Output (Protocol Failure):**\<newline>'' @
   [CHR 0x27] @ ''Here is the rest of the JSON object:\<newline>'' @
   ''e",\<newline>'' @
   ''    "roles": ["editor", "viewer"]\<newline>'' @
   ''  }\<newline>'' @
   ''}'' @ FINISHED_TOKEN @ [CHR 0x27] @ ''\<newline>'' @
   ''*(Reason for failure: Included a preamble.)*\<newline>'' @
   ''\<newline>'' @
   ''---\<newline>'' @
   ''### Example 2: XML\<newline>'' @
   ''\<newline>'' @
   ''**Scenario:** The incomplete response is an XML document cut off inside an attribute's value.\<newline>'' @
   CODE_FENCE @ ''xml\<newline>'' @
   ''<?xml version="1.0" encoding="UTF-8"?>\<newline>'' @
   ''<order>\<newline>'' @
   ''  <id>ORD-001</id>\<newline>'' @
   ''  <customer status="gol\<newline>'' @
   CODE_FENCE @ ''\<newline>'' @
   ''\<newline>'' @
   ''**CORRECT Continuation Output:**\<newline>'' @
   [CHR 0x27] @ ''d">\<newline>'' @
   ''    <name>John Doe</name>\<newline>'' @
   ''  </customer>\<newline>'' @
   ''</order>'' @ FINISHED_TOKEN @ [CHR 0x27] @ ''\<newline>'' @
   ''\<newline>'' @
   ''**INCORRECT Continuation Output (Protocol Failure):**\<newline>'' @
   [CHR 0x27] @ ''"gold">\<newline>'' @
   ''    <name>John Doe</name>...'' @ [CHR 0x27] @ ''\<newline>'' @
   ''*(Reason for failure: Repeated the quote character and the word "gold".)*\<newline>'' @
   ''\<newline>'' @
   ''---\<newline>'' @
   ''### Example 3: Python Code\<newline>'' @
   ''\<newline>'' @
   ''**Scenario:** The incomplete response ends with the following Python code snippet:\<newline>'' @
   CODE_FENCE @ ''python\<newline>'' @
   ''for user in user_list:\<newline>'' @
   ''    print(f"Processing user: {user.na\<newline>'' @
   CODE_FENCE @ ''\<newline>'' @
   ''\<newline>'' @
   ''**CORRECT Continuation Output:**\<newline>'' @
   [CHR 0x27] @ ''me})'' @ FINISHED_TOKEN @ [CHR 0x27] @ ''\<newline>'' @
   ''\<newline>'' @
   ''**INCORRECT Continuation Output (Protocol Failure):**\<newline>'' @
   [CHR 0x27] @ ''user.name})'' @ FINISHED_TOKEN @ [CHR 0x27] @ ''\<newline>'' @
   ''*(Reason for failure: Repeated the word "user".)*\<newline>'' @
   ''\<newline>'' @
   ''---\<newline>'' @
   ''### Example 4: JSON (Interruption After Symbol)\<newline>'' @
   ''\<newline>'' @
   ''**Scenario:** The incomplete response is a JSON object that was cut off immediately after a comma separating two key-value pairs.\<newline>'' @
   CODE_FENCE @ ''json\<newline>'' @
   ''{\<newline>'' @
   ''  "user": "admin",\<newline>'' @
   ''  "permissions": {\<newline>'' @
   ''    "read": true,\<newline>'' @
   ''    "write": false,\<newline>'' @
   ''  \<newline>'' @
   CODE_FENCE @ ''\<newline>'' @
   ''\<newline>'' @
   ''**CORRECT Continuation Output (Note the required indentation):**\<newline>'' @
   [CHR 0x27] @ ''\<newline>'' @
   ''    "execute": false\<newline>'' @
   ''  }\<newline>'' @
   ''}'' @ FINISHED_TOKEN @ [CHR 0x27] @ ''\<newline>'' @
   ''\<newline>'' @
   ''**INCORRECT Continuation Output (Protocol Failure):**\<newline>'' @
   [CHR 0x27] @ '',\<newline>'' @
   ''    "execute": false\<newline>'' @
   ''  }\<newline>'' @
   ''}'' @ FINISHED_TOKEN @ [CHR 0x27] @ ''\<newline>'' @
   ''*(Reason for failure: Repeated the trailing comma from the previous turn.)*''\<close>

definition REMINDER_PROMPT :: string where
  "REMINDER_PROMPT = ''[REMINDER] Strictly adhere to the Final Output Protocol upon completion.''"

definition RETRYABLE_STATUS_CODES :: "nat list" where
  "RETRYABLE_STATUS_CODES = [503, 403, 429]"

definition FATAL_STATUS_CODES :: "nat list" where
  "FATAL_STATUS_CODES = [500]"

definition MAX_FETCH_RETRIES :: nat where
  "MAX_FETCH_RETRIES = 3"

section \<open>Requests and responses\<close>

text \<open>
  The interfaces \<^verbatim>\<open>GeminiRequest\<close> and \<^verbatim>\<open>GeminiResponse\<close>. A field the interface marks
  optional, or that the code tests for before use, is an \<^typ>\<open>'a option\<close> (\<open>None\<close> is
  \<^verbatim>\<open>undefined\<close>). Fields of type \<^verbatim>\<open>any\<close> are opaque and only passed along. The
  field \<^verbatim>\<open>text\<close> of a part is named \<open>text_part\<close>.
\<close>

typedecl js_any

record part =
  text_part :: "string option"
  functionCall :: "js_any option"
  functionResponse :: "js_any option"

record content =
  parts :: "part list option"
  role :: "string option"

record candidate =
  content :: "content option"
  finishReason :: "string option"
  safetyRatings :: "js_any option"

record GeminiResponse =
  candidates :: "candidate list option"
  usageMetadata :: "js_any option"

section \<open>Completion detector\<close>

text \<open>\<^verbatim>\<open>part.text || ''\<close>: an absent text counts as the empty string.\<close>

definition text_or_empty :: "part \<Rightarrow> string" where
  "text_or_empty p = (case text_part p of None \<Rightarrow> [] | Some t \<Rightarrow> t)"

text \<open>\<^verbatim>\<open>parts.map(part => part.text || '').join('')\<close>\<close>

definition parts_text :: "part list \<Rightarrow> string" where
  "parts_text ps = js_join (map text_or_empty ps)"

definition isResponseComplete :: "GeminiResponse \<Rightarrow> bool" where
  "isResponseComplete response =
     (case candidates response of
        None \<Rightarrow> False
      | Some [] \<Rightarrow> False
      | Some (candidate # _) \<Rightarrow>
          (case content candidate of
             None \<Rightarrow> False
           | Some c \<Rightarrow>
               (case parts c of
                  None \<Rightarrow> False
                | Some ps \<Rightarrow> js_includes (parts_text ps) FINISHED_TOKEN)))"

section \<open>Errors\<close>

text \<open>
  Every way a call of the handler can throw: a \<^verbatim>\<open>TypeError\<close> from reading or writing a
  property of \<^verbatim>\<open>undefined\<close> or from spreading a non-iterable, a \<^verbatim>\<open>SyntaxError\<close> from
  parsing JSON, the \<^verbatim>\<open>Error\<close> for a missing API key, the \<^verbatim>\<open>Error\<close> the client
  raises for a bad status (with the status and its text), and a rejected \<^verbatim>\<open>fetch\<close>
  (connection failure or the request timeout) with its message.
\<close>

datatype js_error =
    TypeError
  | SyntaxError
  | MissingApiKey
  | StatusError nat string
  | FetchFailed string

section \<open>Token cleanup\<close>

text \<open>The chain \<^verbatim>\<open>.replace(FINISHED_TOKEN, '').replace(INCOMPLETE_TOKEN, '').replace(REMINDER_PROMPT, '')\<close>.\<close>

definition strip_tokens :: "string \<Rightarrow> string" where
  "strip_tokens t =
     js_replace (js_replace (js_replace t FINISHED_TOKEN []) INCOMPLETE_TOKEN []) REMINDER_PROMPT []"

text \<open>The callback of \<^verbatim>\<open>parts.map\<close> in \<^verbatim>\<open>cleanResponse\<close>; \<^verbatim>\<open>if (part.text)\<close> holds for a
  text that is present and not empty. The other fields of the part are copied.\<close>

definition clean_part :: "part \<Rightarrow> part" where
  "clean_part p =
     (case text_part p of
        None \<Rightarrow> p
      | Some t \<Rightarrow> if t = [] then p else p\<lparr>text_part := Some (js_trim (strip_tokens t))\<rparr>)"

text \<open>The callback in \<^verbatim>\<open>processStreamChunk\<close>: the same chain, without the trim.\<close>

definition clean_stream_part :: "part \<Rightarrow> part" where
  "clean_stream_part p =
     (case text_part p of
        None \<Rightarrow> p
      | Some t \<Rightarrow> if t = [] then p else p\<lparr>text_part := Some (strip_tokens t)\<rparr>)"

text \<open>\<^verbatim>\<open>cleanResponse\<close> rewrites the parts of candidate 0 in place and returns the response;
  the model returns the rewritten response.\<close>

definition cleanResponse :: "GeminiResponse \<Rightarrow> GeminiResponse" where
  "cleanResponse response =
     (case candidates response of
        None \<Rightarrow> response
      | Some [] \<Rightarrow> response
      | Some (candidate # rest) \<Rightarrow>
          (case content candidate of
             None \<Rightarrow> response
           | Some c \<Rightarrow>
               (case parts c of
                  None \<Rightarrow> response
                | Some ps \<Rightarrow>
                    response\<lparr>candidates :=
                      Some (candidate\<lparr>content := Some (c\<lparr>parts := Some (map clean_part ps)\<rparr>)\<rparr>
                            # rest)\<rparr>)))"

text \<open>
  \<^verbatim>\<open>processStreamChunk(chunk: any)\<close> receives whatever \<^verbatim>\<open>JSON.parse\<close> returned:
  \<^verbatim>\<open>null\<close> (reading \<^verbatim>\<open>chunk.candidates\<close> throws), a number, string or boolean (it has no
  \<^verbatim>\<open>candidates\<close> and is returned as it is; the flag says whether the value is truthy), or
  an object, read through the response interface. An array has no \<^verbatim>\<open>candidates\<close> either
  and behaves as an object without that field.
\<close>

datatype json_value =
    JNull
  | JPrimitive bool js_any
  | JObject GeminiResponse

definition processStreamChunk_object :: "GeminiResponse \<Rightarrow> GeminiResponse" where
  "processStreamChunk_object chunk =
     (case candidates chunk of
        None \<Rightarrow> chunk
      | Some [] \<Rightarrow> chunk
      | Some (candidate # rest) \<Rightarrow>
          (case content candidate of
             None \<Rightarrow> chunk
           | Some c \<Rightarrow>
               (case parts c of
                  None \<Rightarrow> chunk
                | Some ps \<Rightarrow>
                    chunk\<lparr>candidates :=
                      Some (candidate\<lparr>content := Some (c\<lparr>parts := Some (map clean_stream_part ps)\<rparr>)\<rparr>
                            # rest)\<rparr>)))"

fun processStreamChunk :: "json_value \<Rightarrow> js_error + json_value" where
  "processStreamChunk JNull = Inl TypeError"
| "processStreamChunk (JPrimitive truthy v) = Inr (JPrimitive truthy v)"
| "processStreamChunk (JObject chunk) = Inr (JObject (processStreamChunk_object chunk))"

fun js_truthy :: "json_value \<Rightarrow> bool" where
  "js_truthy JNull = False"
| "js_truthy (JPrimitive truthy v) = truthy"
| "js_truthy (JObject chunk) = True"

section \<open>Response combiner\<close>

text \<open>\<^verbatim>\<open>response.candidates[0].content.parts.map(...)\<close>: each missing link throws.\<close>

definition candidate0 :: "GeminiResponse \<Rightarrow> js_error + candidate" where
  "candidate0 response =
     (case candidates response of
        None \<Rightarrow> Inl TypeError
      | Some [] \<Rightarrow> Inl TypeError
      | Some (c # _) \<Rightarrow> Inr c)"

definition candidate0_text :: "GeminiResponse \<Rightarrow> js_error + string" where
  "candidate0_text response =
     (case candidate0 response of
        Inl e \<Rightarrow> Inl e
      | Inr c \<Rightarrow>
          (case content c of
             None \<Rightarrow> Inl TypeError
           | Some k \<Rightarrow>
               (case parts k of
                  None \<Rightarrow> Inl TypeError
                | Some ps \<Rightarrow> Inr (parts_text ps))))"

definition text_only :: "string \<Rightarrow> part" where
  "text_only t = \<lparr>text_part = Some t, functionCall = None, functionResponse = None\<rparr>"

definition combineResponses :: "GeminiResponse \<Rightarrow> GeminiResponse \<Rightarrow> js_error + GeminiResponse" where
  "combineResponses incomplete complete =
     (case candidate0_text incomplete of
        Inl e \<Rightarrow> Inl e
      | Inr incompleteText \<Rightarrow>
          (case candidate0_text complete of
             Inl e \<Rightarrow> Inl e
           | Inr completeText \<Rightarrow>
               (let finalText = js_trim (js_replace completeText incompleteText [])
                in (case candidate0 complete of
                      Inl e \<Rightarrow> Inl e
                    | Inr c \<Rightarrow>
                        (case content c of
                           None \<Rightarrow> Inl TypeError
                         | Some k \<Rightarrow>
                             Inr \<lparr>candidates = Some
                                    [\<lparr>content = Some \<lparr>parts = Some [text_only finalText],
                                                          role = role k\<rparr>,
                                      finishReason = finishReason c,
                                      safetyRatings = safetyRatings c\<rparr>],
                                  usageMetadata = usageMetadata complete\<rparr>)))))"

section \<open>Requests and the object store\<close>

text \<open>
  A request is a JavaScript object whose \<^verbatim>\<open>systemInstruction\<close> field holds a reference to
  another object. The spread \<^verbatim>\<open>{ ...request }\<close> copies the fields of the request, so the
  copy holds the same reference. The request itself is a value here (a copy is a copy of
  the record); the system instruction lives in a store, at an address. The parts array and
  its part objects are reachable only through the instruction object and are kept inside
  its cell.
\<close>

type_synonym addr = nat

record GeminiRequest =
  contents :: "content list option"
  tools :: "js_any option"
  toolConfig :: "js_any option"
  generationConfig :: "js_any option"
  safetySettings :: "js_any option"
  systemInstruction :: "addr option"

record heap =
  cells :: "addr \<Rightarrow> content"
  next_addr :: addr

definition heap_alloc :: "content \<Rightarrow> heap \<Rightarrow> addr \<times> heap" where
  "heap_alloc obj h =
     (next_addr h, h\<lparr>cells := (cells h)(next_addr h := obj), next_addr := Suc (next_addr h)\<rparr>)"

definition heap_write :: "addr \<Rightarrow> content \<Rightarrow> heap \<Rightarrow> heap" where
  "heap_write a obj h = h\<lparr>cells := (cells h)(a := obj)\<rparr>"

section \<open>Prompt augmenter\<close>

text \<open>
  \<^verbatim>\<open>addAntiTruncationPrompt\<close>. Without a system instruction a new object is created and
  stored in the copy. With one, \<^verbatim>\<open>parts[0]?.text || ''\<close> is read and the sum is assigned to
  \<^verbatim>\<open>modifiedRequest.systemInstruction.parts[0].text\<close>, which writes to the object the copy
  refers to. Reading \<^verbatim>\<open>parts[0]\<close> of an absent \<^verbatim>\<open>parts\<close> throws; with an empty array the
  read yields \<^verbatim>\<open>undefined\<close> and the assignment to its \<^verbatim>\<open>text\<close> throws.
\<close>

definition addAntiTruncationPrompt ::
  "GeminiRequest \<Rightarrow> heap \<Rightarrow> js_error + (GeminiRequest \<times> heap)" where
  "addAntiTruncationPrompt request h =
     (let modifiedRequest = request
      in (case systemInstruction modifiedRequest of
            None \<Rightarrow>
              (let (a, h') = heap_alloc \<lparr>parts = Some [text_only FINISH_TOKEN_PROMPT],
                                         role = Some ''user''\<rparr> h
               in Inr (modifiedRequest\<lparr>systemInstruction := Some a\<rparr>, h'))
          | Some a \<Rightarrow>
              (case parts (cells h a) of
                 None \<Rightarrow> Inl TypeError
               | Some [] \<Rightarrow> Inl TypeError
               | Some (p # ps) \<Rightarrow>
                   (let existingText = text_or_empty p;
                        p' = p\<lparr>text_part :=
                               Some (existingText @ ''\<newline>\<newline>'' @ FINISH_TOKEN_PROMPT)\<rparr>
                    in Inr (modifiedRequest,
                            heap_write a ((cells h a)\<lparr>parts := Some (p' # ps)\<rparr>) h)))))"

text \<open>The text of the system instruction a request refers to, read in a store:
  the text of \<^verbatim>\<open>systemInstruction.parts[0]\<close>.\<close>

definition systemInstruction_text :: "GeminiRequest \<Rightarrow> heap \<Rightarrow> string option" where
  "systemInstruction_text request h =
     (case systemInstruction request of
        None \<Rightarrow> None
      | Some a \<Rightarrow>
          (case parts (cells h a) of
             None \<Rightarrow> None
           | Some [] \<Rightarrow> None
           | Some (p # _) \<Rightarrow> text_part p))"

section \<open>Continuation builder\<close>

text \<open>\<^verbatim>\<open>createRetryRequest\<close>: the text of candidate 0 is read first; then the request is
  copied and \<^verbatim>\<open>[...originalRequest.contents, retryContent]\<close> is built, which throws when
  \<^verbatim>\<open>contents\<close> is absent.\<close>

definition createRetryRequest :: "GeminiResponse \<Rightarrow> GeminiRequest \<Rightarrow> js_error + GeminiRequest" where
  "createRetryRequest incompleteResponse originalRequest =
     (case candidate0_text incompleteResponse of
        Inl e \<Rightarrow> Inl e
      | Inr incompleteText \<Rightarrow>
          (let retryRequest = originalRequest;
               retryContent = \<lparr>parts = Some [text_only (incompleteText @ ''\<newline>\<newline>'' @ RETRY_PROMPT)],
                               role = Some ''user''\<rparr>
           in (case contents originalRequest of
                 None \<Rightarrow> Inl TypeError
               | Some cs \<Rightarrow> Inr (retryRequest\<lparr>contents := Some (cs @ [retryContent])\<rparr>))))"

section \<open>The upstream and the world around a call\<close>

text \<open>
  What \<^verbatim>\<open>fetch\<close> gives back: a response, or a rejection (a network failure, or the abort
  of \<^verbatim>\<open>AbortSignal.timeout\<close>). The body of a response is the value \<^verbatim>\<open>response.json()\<close>
  resolves to, \<open>None\<close> when it rejects. \<^verbatim>\<open>response.ok\<close> holds for a status from 200 to 299.
\<close>

record http_response =
  status :: nat
  statusText :: string
  body :: "GeminiResponse option"

definition ok :: "http_response \<Rightarrow> bool" where
  "ok r = (200 \<le> status r \<and> status r \<le> 299)"

datatype fetch_outcome = Resolved http_response | Rejected js_error

text \<open>The environment of a call: the API key variable, and the upstream, which answers the
  \<open>n\<close>-th \<^verbatim>\<open>fetch\<close> of the run with an outcome.\<close>

record env =
  GEMINI_API_KEY :: "string option"
  upstream :: "nat \<Rightarrow> fetch_outcome"

datatype log_entry =
    DebugRetryStatus nat nat
  | DebugRetryError nat nat
  | DebugIncomplete
  | ErrorRetryFailed js_error
  | ErrorNonStreaming string js_error
  | LogAccess string string nat

text \<open>The effects of a run, in order: the requests sent (URL and body), the delays slept (in
  milliseconds) and the log lines.\<close>

record world =
  sent :: "(string \<times> GeminiRequest) list"
  sleeps :: "nat list"
  logged :: "log_entry list"

definition fetch_count :: "world \<Rightarrow> nat" where
  "fetch_count w = length (sent w)"

definition do_fetch :: "string \<Rightarrow> GeminiRequest \<Rightarrow> world \<Rightarrow> world" where
  "do_fetch url request w = w\<lparr>sent := sent w @ [(url, request)]\<rparr>"

definition do_sleep :: "nat \<Rightarrow> world \<Rightarrow> world" where
  "do_sleep ms w = w\<lparr>sleeps := sleeps w @ [ms]\<rparr>"

definition do_log :: "log_entry \<Rightarrow> world \<Rightarrow> world" where
  "do_log l w = w\<lparr>logged := logged w @ [l]\<rparr>"

section \<open>Resilient upstream client\<close>

definition request_url :: "string \<Rightarrow> string \<Rightarrow> bool \<Rightarrow> string" where
  "request_url model searchParams isStreaming =
     (let endpoint = (if isStreaming then ''streamGenerateContent'' else ''generateContent'');
          baseUrl = ''https://generativelanguage.googleapis.com/v1beta/models/'' @ model @ '':'' @ endpoint
      in if searchParams \<noteq> [] then baseUrl @ searchParams else baseUrl)"

text \<open>\<^verbatim>\<open>Math.min(1000 * Math.pow(2, retryCount), 30000)\<close>\<close>

definition backoffDelay :: "nat \<Rightarrow> nat" where
  "backoffDelay retryCount = min (1000 * 2 ^ retryCount) 30000"

text \<open>
  \<^verbatim>\<open>makeGeminiRequestWithRetry\<close>. The key is checked before the \<^verbatim>\<open>try\<close>. Inside it, a
  response that is not ok and whose status is retryable is retried while
  \<^verbatim>\<open>retryCount < MAX_FETCH_RETRIES\<close>; otherwise an \<^verbatim>\<open>Error\<close> is thrown, inside the
  \<^verbatim>\<open>try\<close>, so the \<^verbatim>\<open>catch\<close> receives it as it receives a rejected \<^verbatim>\<open>fetch\<close>, and retries
  under the same bound. A recursive call is returned without \<^verbatim>\<open>await\<close>: its rejection is
  the caller's result and does not enter the caller's \<^verbatim>\<open>catch\<close>.
\<close>

function makeGeminiRequestWithRetry ::
  "env \<Rightarrow> GeminiRequest \<Rightarrow> string \<Rightarrow> string \<Rightarrow> bool \<Rightarrow> nat \<Rightarrow> world
     \<Rightarrow> (js_error + http_response) \<times> world" where
  "makeGeminiRequestWithRetry e request model searchParams isStreaming retryCount w =
     (case GEMINI_API_KEY e of
        None \<Rightarrow> (Inl MissingApiKey, w)
      | Some apiKey \<Rightarrow>
          (if apiKey = [] then (Inl MissingApiKey, w)
           else
             (case upstream e (fetch_count w) of
                Resolved response \<Rightarrow>
                  (if \<not> ok response then
                     (if status response \<in> set RETRYABLE_STATUS_CODES \<and> retryCount < MAX_FETCH_RETRIES
                      then
                        makeGeminiRequestWithRetry e request model searchParams isStreaming
                          (retryCount + 1)
                          (do_sleep (backoffDelay retryCount)
                            (do_log (DebugRetryStatus (retryCount + 1) MAX_FETCH_RETRIES)
                              (do_fetch (request_url model searchParams isStreaming) request w)))
                      else
                        (if retryCount < MAX_FETCH_RETRIES
                         then
                           makeGeminiRequestWithRetry e request model searchParams isStreaming
                             (retryCount + 1)
                             (do_sleep (backoffDelay retryCount)
                               (do_log (DebugRetryError (retryCount + 1) MAX_FETCH_RETRIES)
                                 (do_fetch (request_url model searchParams isStreaming) request w)))
                         else
                           (Inl (StatusError (status response) (statusText response)),
                            do_fetch (request_url model searchParams isStreaming) request w)))
                   else
                     (Inr response, do_fetch (request_url model searchParams isStreaming) request w))
              | Rejected err \<Rightarrow>
                  (if retryCount < MAX_FETCH_RETRIES
                   then
                     makeGeminiRequestWithRetry e request model searchParams isStreaming
                       (retryCount + 1)
                       (do_sleep (backoffDelay retryCount)
                         (do_log (DebugRetryError (retryCount + 1) MAX_FETCH_RETRIES)
                           (do_fetch (request_url model searchParams isStreaming) request w)))
                   else
                     (Inl err, do_fetch (request_url model searchParams isStreaming) request w)))))"
  by pat_completeness auto
termination
  by (relation "measure (\<lambda>(e, request, model, searchParams, isStreaming, retryCount, w).
        MAX_FETCH_RETRIES - retryCount)") auto

section \<open>Protocol orchestrator, non-streaming path\<close>

text \<open>What the handler gives back to the HTTP layer: a status and a body, which is the
  serialised response or the payload of \<^verbatim>\<open>createErrorResponse\<close> (message and cause).\<close>

datatype client_body = JsonBody GeminiResponse | ErrorBody string js_error

record client_response =
  out_status :: nat
  out_body :: client_body

text \<open>
  \<^verbatim>\<open>handleIncompleteResponse\<close>. The continuation request is built before the \<^verbatim>\<open>try\<close>;
  sending, reading the body and combining are inside it, and the \<^verbatim>\<open>catch\<close> answers with
  the incomplete response and status 200.
\<close>

definition fallback_response :: "GeminiResponse \<Rightarrow> client_response" where
  "fallback_response incompleteResponse =
     \<lparr>out_status = 200, out_body = JsonBody incompleteResponse\<rparr>"

definition handleIncompleteResponse ::
  "env \<Rightarrow> GeminiResponse \<Rightarrow> GeminiRequest \<Rightarrow> string \<Rightarrow> string \<Rightarrow> world
     \<Rightarrow> (js_error + client_response) \<times> world" where
  "handleIncompleteResponse e incompleteResponse originalRequest model searchParams w =
     (let w0 = do_log DebugIncomplete w
      in (case createRetryRequest incompleteResponse originalRequest of
            Inl err \<Rightarrow> (Inl err, w0)
          | Inr retryRequest \<Rightarrow>
              (case makeGeminiRequestWithRetry e retryRequest model searchParams False 0 w0 of
                 (Inl err, w1) \<Rightarrow>
                   (Inr (fallback_response incompleteResponse), do_log (ErrorRetryFailed err) w1)
               | (Inr response, w1) \<Rightarrow>
                   (case body response of
                      None \<Rightarrow>
                        (Inr (fallback_response incompleteResponse),
                         do_log (ErrorRetryFailed SyntaxError) w1)
                    | Some geminiResponse \<Rightarrow>
                        (case combineResponses incompleteResponse geminiResponse of
                           Inl err \<Rightarrow>
                             (Inr (fallback_response incompleteResponse),
                              do_log (ErrorRetryFailed err) w1)
                         | Inr combinedResponse \<Rightarrow>
                             (Inr \<lparr>out_status = status response,
                                   out_body = JsonBody combinedResponse\<rparr>, w1))))))"

text \<open>
  \<^verbatim>\<open>handleNonStreamingRequest\<close>. Everything up to the completeness check is inside the
  \<^verbatim>\<open>try\<close>, whose \<^verbatim>\<open>catch\<close> answers with status 500. The promise of
  \<^verbatim>\<open>handleIncompleteResponse\<close> is returned without \<^verbatim>\<open>await\<close>, so its rejection is the
  handler's own.
\<close>

definition error_response :: "js_error \<Rightarrow> client_response" where
  "error_response err = \<lparr>out_status = 500, out_body = ErrorBody ''Gemini request failed'' err\<rparr>"

definition handleNonStreamingRequest ::
  "env \<Rightarrow> GeminiRequest \<Rightarrow> string \<Rightarrow> string \<Rightarrow> heap \<Rightarrow> world
     \<Rightarrow> (js_error + client_response) \<times> heap \<times> world" where
  "handleNonStreamingRequest e request model searchParams h w =
     (case addAntiTruncationPrompt request h of
        Inl err \<Rightarrow> (Inr (error_response err), h, do_log (ErrorNonStreaming model err) w)
      | Inr (modifiedRequest, h') \<Rightarrow>
          (case makeGeminiRequestWithRetry e modifiedRequest model searchParams False 0 w of
             (Inl err, w1) \<Rightarrow>
               (Inr (error_response err), h', do_log (ErrorNonStreaming model err) w1)
           | (Inr response, w1) \<Rightarrow>
               (case body response of
                  None \<Rightarrow>
                    (Inr (error_response SyntaxError), h',
                     do_log (ErrorNonStreaming model SyntaxError) w1)
                | Some geminiResponse \<Rightarrow>
                    (if \<not> isResponseComplete geminiResponse then
                       (case handleIncompleteResponse e geminiResponse modifiedRequest model
                               searchParams w1 of
                          (r, w2) \<Rightarrow> (r, h', w2))
                     else
                       (Inr \<lparr>out_status = status response,
                             out_body = JsonBody (cleanResponse geminiResponse)\<rparr>,
                        h',
                        do_log (LogAccess ''GEMINI-ANTI'' model (status response)) w1)))))"

section \<open>Stream chunk transformer\<close>

text \<open>
  The \<^verbatim>\<open>transform\<close> callback of the \<^verbatim>\<open>TransformStream\<close>. The controller is the queue of
  chunks enqueued so far, with the log lines written. \<^verbatim>\<open>JSON.parse\<close> and
  \<^verbatim>\<open>JSON.stringify\<close> belong to the platform and are parameters: \<open>parse\<close> gives \<open>None\<close>
  where \<^verbatim>\<open>JSON.parse\<close> throws a \<^verbatim>\<open>SyntaxError\<close>. Decoding and encoding are the identity
  on text.
\<close>

datatype stream_log = DebugJsonParseError string | ErrorUnexpected js_error

record controller =
  queue :: "string list"
  stream_logged :: "stream_log list"

definition enqueue :: "string \<Rightarrow> controller \<Rightarrow> controller" where
  "enqueue s c = c\<lparr>queue := queue c @ [s]\<rparr>"

definition stream_log_add :: "stream_log \<Rightarrow> controller \<Rightarrow> controller" where
  "stream_log_add l c = c\<lparr>stream_logged := stream_logged c @ [l]\<rparr>"

text \<open>\<^verbatim>\<open>line.slice(6, 100)\<close>\<close>

definition js_slice :: "nat \<Rightarrow> nat \<Rightarrow> string \<Rightarrow> string" where
  "js_slice i j s = take (j - i) (drop i s)"

text \<open>The body of the loop over the lines.\<close>

definition transform_line ::
  "(string \<Rightarrow> json_value option) \<Rightarrow> (json_value \<Rightarrow> string) \<Rightarrow> string \<Rightarrow> controller \<Rightarrow> controller" where
  "transform_line parse stringify line c =
     (if js_startsWith line ''data: '' then
        (let jsonData = js_slice_from 6 line
         in if jsonData = [] \<or> js_trim jsonData = [] then enqueue (line @ ''\<newline>'') c
            else
              (case parse jsonData of
                 None \<Rightarrow>
                   enqueue (line @ ''\<newline>'')
                     (stream_log_add (DebugJsonParseError (js_slice 6 100 line)) c)
               | Some data \<Rightarrow>
                   (case processStreamChunk data of
                      Inl err \<Rightarrow>
                        enqueue (line @ ''\<newline>'') (stream_log_add (ErrorUnexpected err) c)
                    | Inr processed \<Rightarrow>
                        (if js_truthy processed
                         then enqueue (''data: '' @ stringify processed @ ''\<newline>\<newline>'') c
                         else c))))
      else enqueue (line @ ''\<newline>'') c)"

fun transform_lines ::
  "(string \<Rightarrow> json_value option) \<Rightarrow> (json_value \<Rightarrow> string) \<Rightarrow> string list \<Rightarrow> controller \<Rightarrow> controller" where
  "transform_lines parse stringify [] c = c"
| "transform_lines parse stringify (line # lines) c =
     transform_lines parse stringify lines (transform_line parse stringify line c)"

text \<open>\<^verbatim>\<open>text.split('\n').filter(line => line.trim())\<close>: a line that is empty after
  trimming is falsy and is filtered out before the loop.\<close>

definition chunk_lines :: "string \<Rightarrow> string list" where
  "chunk_lines txt = filter (\<lambda>line. js_trim line \<noteq> []) (js_split_lines txt)"

definition transform ::
  "(string \<Rightarrow> json_value option) \<Rightarrow> (json_value \<Rightarrow> string) \<Rightarrow> string \<Rightarrow> controller \<Rightarrow> controller" where
  "transform parse stringify chunk c = transform_lines parse stringify (chunk_lines chunk) c"

section \<open>Auxiliary definitions for the properties\<close>

text \<open>The log line of a retry: the one written in the status branch when the status is
  retryable, the one written in the \<^verbatim>\<open>catch\<close> block otherwise.\<close>

definition retry_entry :: "bool \<Rightarrow> nat \<Rightarrow> log_entry" where
  "retry_entry retryable i =
     (if retryable then DebugRetryStatus (i + 1) MAX_FETCH_RETRIES
      else DebugRetryError (i + 1) MAX_FETCH_RETRIES)"

text \<open>Concrete inputs: an upstream that answers every request with the same status, a
  request without turns, and the state before any effect.\<close>

definition env_always :: "nat \<Rightarrow> string \<Rightarrow> env" where
  "env_always code txt =
     \<lparr>GEMINI_API_KEY = Some ''key'',
      upstream = (\<lambda>n. Resolved \<lparr>status = code, statusText = txt, body = None\<rparr>)\<rparr>"

definition empty_request :: GeminiRequest where
  "empty_request = \<lparr>contents = Some [], tools = None, toolConfig = None, generationConfig = None,
     safetySettings = None, systemInstruction = None\<rparr>"

definition world0 :: world where
  "world0 = \<lparr>sent = [], sleeps = [], logged = []\<rparr>"

text \<open>The text of a candidate in the words of the specification: the concatenation, in
  part order, of the texts of its parts that carry one; empty when the candidate has no
  content or the content has no parts.\<close>

definition candidate_text :: "candidate \<Rightarrow> string" where
  "candidate_text c =
     (case content c of
        None \<Rightarrow> []
      | Some k \<Rightarrow> (case parts k of None \<Rightarrow> [] | Some ps \<Rightarrow> concat (List.map_filter text_part ps)))"

text \<open>A request whose system instruction is the object at address 0, a store where that
  object has one text part, and a store where its parts array is empty.\<close>

definition request1 :: GeminiRequest where
  "request1 = empty_request\<lparr>systemInstruction := Some 0\<rparr>"

definition heap1 :: heap where
  "heap1 = \<lparr>cells = (\<lambda>a. \<lparr>parts = None, role = None\<rparr>)
              (0 := \<lparr>parts = Some [text_only ''Be brief.''], role = None\<rparr>),
            next_addr = 1\<rparr>"

definition heap_no_parts :: heap where
  "heap_no_parts = \<lparr>cells = (\<lambda>a. \<lparr>parts = None, role = None\<rparr>)
              (0 := \<lparr>parts = Some [], role = Some ''user''\<rparr>),
            next_addr = 1\<rparr>"

text \<open>Responses and upstreams of the scenarios: a response with one candidate and one
  text part, a response whose candidate has no content, a response with no candidate;
  an upstream that first answers "Hello wor" and then the continuation with the finished
  marker, and one that answers with the response without candidates.\<close>

definition response_of_text :: "string \<Rightarrow> GeminiResponse" where
  "response_of_text t =
     \<lparr>candidates = Some [\<lparr>content = Some \<lparr>parts = Some [text_only t], role = Some ''model''\<rparr>,
                          finishReason = Some ''STOP'', safetyRatings = None\<rparr>],
      usageMetadata = None\<rparr>"

definition response_no_content :: GeminiResponse where
  "response_no_content =
     \<lparr>candidates = Some [\<lparr>content = None, finishReason = Some ''SAFETY'', safetyRatings = None\<rparr>],
      usageMetadata = None\<rparr>"

definition response_no_candidates :: GeminiResponse where
  "response_no_candidates = \<lparr>candidates = Some [], usageMetadata = None\<rparr>"

definition http_ok :: "GeminiResponse \<Rightarrow> fetch_outcome" where
  "http_ok r = Resolved \<lparr>status = 200, statusText = ''OK'', body = Some r\<rparr>"

definition env_scenario :: env where
  "env_scenario =
     \<lparr>GEMINI_API_KEY = Some ''key'',
      upstream = (\<lambda>n. if n = 0 then http_ok (response_of_text ''Hello wor'')
                       else http_ok (response_of_text ''ld![RESPONSE_FINISHED]''))\<rparr>"

definition env_no_candidates :: env where
  "env_no_candidates =
     \<lparr>GEMINI_API_KEY = Some ''key'', upstream = (\<lambda>n. http_ok response_no_candidates)\<rparr>"

definition heap0 :: heap where
  "heap0 = \<lparr>cells = (\<lambda>a. \<lparr>parts = None, role = None\<rparr>), next_addr = 0\<rparr>"

text \<open>What the loop body enqueues for one line, starting from an empty queue; the state
  of a fresh controller; and a small stand-in for the JSON functions of the platform,
  which parses the text of the empty object only.\<close>

definition emitted :: "(string \<Rightarrow> json_value option) \<Rightarrow> (json_value \<Rightarrow> string) \<Rightarrow> string \<Rightarrow> string list" where
  "emitted parse stringify line =
     queue (transform_line parse stringify line \<lparr>queue = [], stream_logged = []\<rparr>)"

definition controller0 :: controller where
  "controller0 = \<lparr>queue = [], stream_logged = []\<rparr>"

fun toy_parse :: "string \<Rightarrow> json_value option" where
  "toy_parse s = (if s = ''{}'' then Some (JObject \<lparr>candidates = None, usageMetadata = None\<rparr>) else None)"

fun toy_stringify :: "json_value \<Rightarrow> string" where
  "toy_stringify v = ''{}''"

text \<open>The three tokens the cleanup looks for.\<close>

definition protocol_tokens :: "string list" where
  "protocol_tokens = [FINISHED_TOKEN, INCOMPLETE_TOKEN, REMINDER_PROMPT]"

section \<open>Properties of the string primitives\<close>

lemma js_includes_sublist: "js_includes s p = sublist p s"
proof (induction s)
  case Nil
  show ?case by simp
next
  case (Cons c cs)
  show ?case
  proof (cases p)
    case Nil
    then show ?thesis by simp
  next
    case (Cons a as)
    with Cons.IH show ?thesis by (simp add: sublist_Cons_right)
  qed
qed

lemma js_replace_prefix: "js_replace (p @ x) p [] = x"
proof (cases "p @ x")
  case Nil
  then show ?thesis by simp
next
  case (Cons c cs)
  have "prefix p (p @ x)" by simp
  then have "js_replace (c # cs) p [] = drop (length p) (c # cs)"
    unfolding Cons by simp
  also have "\<dots> = x" using Cons [symmetric] by simp
  finally show ?thesis using Cons by simp
qed

lemma js_replace_absent: "\<not> sublist p s \<Longrightarrow> js_replace s p r = s"
proof (induction s)
  case Nil
  then show ?case by auto
next
  case (Cons c cs)
  then show ?case by (cases p) (auto simp: sublist_Cons_right)
qed

lemma js_replace_skip:
  "c \<notin> set A \<Longrightarrow> js_replace (A @ s) (c # p) r = A @ js_replace s (c # p) r"
  by (induction A) auto

lemma js_replace_nochar: "c \<notin> set s \<Longrightarrow> js_replace s (c # p) r = s"
  by (induction s) auto

lemma no_sublist_nochar: "c \<notin> set s \<Longrightarrow> \<not> sublist (c # p) s"
  using set_mono_sublist [of "c # p" s] by auto

lemma js_replace_other:
  assumes "c \<notin> set T" "c \<notin> set B" "\<not> prefix p (T @ B)"
  shows "js_replace ((c # T) @ B) (c # p) r = (c # T) @ B"
  using assms by (simp add: js_replace_nochar)

text \<open>The first occurrence is the one removed.\<close>

lemma js_replace_first:
  assumes "p \<noteq> []" and "\<not> sublist p (A @ butlast p)"
  shows "js_replace (A @ p @ B) p r = A @ r @ B"
  using assms(2)
proof (induction A)
  case Nil
  obtain c cs where p: "p = c # cs" using assms(1) by (cases p) auto
  show ?case by (simp add: p)
next
  case (Cons a A)
  have np: "\<not> prefix p (a # A @ p @ B)"
  proof
    assume pre: "prefix p (a # A @ p @ B)"
    have eq: "a # A @ p @ B = ((a # A) @ butlast p) @ (last p # B)"
      using assms(1) by simp
    have "prefix ((a # A) @ butlast p) (a # A @ p @ B)"
      unfolding eq by simp
    moreover have "length p \<le> length ((a # A) @ butlast p)"
      using assms(1) by (cases p) auto
    ultimately have "prefix p ((a # A) @ butlast p)"
      using pre prefix_length_prefix by blast
    then have "sublist p ((a # A) @ butlast p)" by (rule prefix_imp_sublist)
    with Cons.prems show False by simp
  qed
  have "\<not> sublist p (A @ butlast p)"
    using Cons.prems by (auto simp: sublist_Cons_right)
  then have "js_replace (A @ p @ B) p r = A @ r @ B" by (rule Cons.IH)
  with np show ?case by simp
qed

lemma set_js_trim: "set (js_trim s) \<subseteq> set s"
proof -
  have "set (js_trim s) \<subseteq> set (dropWhile js_isSpace s)"
    unfolding js_trim_def using set_dropWhileD [of _ js_isSpace "rev (dropWhile js_isSpace s)"]
    by auto
  also have "\<dots> \<subseteq> set s" using set_dropWhileD by fastforce
  finally show ?thesis .
qed

section \<open>The completion detector\<close>

lemma parts_text_map_filter: "parts_text ps = concat (List.map_filter text_part ps)"
  by (induction ps)
    (simp_all add: parts_text_def js_join_def text_or_empty_def map_filter_simps
      split: option.splits)

lemma FINISHED_TOKEN_not_Nil: "FINISHED_TOKEN \<noteq> []"
  by (simp add: FINISHED_TOKEN_def)

lemma isResponseComplete_Cons:
  assumes R: "candidates R = Some (c # cs)"
  shows "isResponseComplete R = sublist FINISHED_TOKEN (candidate_text c)"
proof (cases "content c")
  case None
  with R show ?thesis
    by (simp add: isResponseComplete_def candidate_text_def FINISHED_TOKEN_not_Nil)
next
  case (Some k)
  show ?thesis
  proof (cases "parts k")
    case None
    with Some R show ?thesis
      by (simp add: isResponseComplete_def candidate_text_def FINISHED_TOKEN_not_Nil)
  next
    case (Some ps)
    with \<open>content c = Some k\<close> R show ?thesis
      by (simp add: isResponseComplete_def candidate_text_def js_includes_sublist
          parts_text_map_filter)
  qed
qed

lemma isResponseComplete_no_candidate:
  "isResponseComplete \<lparr>candidates = None, usageMetadata = u\<rparr> = False"
  "isResponseComplete \<lparr>candidates = Some [], usageMetadata = u\<rparr> = False"
  by (simp_all add: isResponseComplete_def)

lemma isResponseComplete_no_parts:
  "isResponseComplete \<lparr>candidates = Some (c\<lparr>content := None\<rparr> # cs), usageMetadata = u\<rparr> = False"
  "isResponseComplete
     \<lparr>candidates = Some (c\<lparr>content := Some (k\<lparr>parts := None\<rparr>)\<rparr> # cs), usageMetadata = u\<rparr> = False"
  by (simp_all add: isResponseComplete_def)

text \<open>
  Claim C6. The detector answers COMPLETE exactly when the response has a first candidate
  and the concatenation, in part order, of that candidate's text parts contains the
  finished marker as a substring. A response without the candidates field or with an empty
  candidate list, a first candidate without content and a content without parts are all
  classified INCOMPLETE; the detector is a total function and raises nothing.
\<close>

theorem isResponseComplete_iff:
  "(isResponseComplete R \<longleftrightarrow>
      (\<exists>c cs. candidates R = Some (c # cs) \<and> sublist FINISHED_TOKEN (candidate_text c)))
   \<and> isResponseComplete \<lparr>candidates = None, usageMetadata = u\<rparr> = False
   \<and> isResponseComplete \<lparr>candidates = Some [], usageMetadata = u\<rparr> = False
   \<and> isResponseComplete
        \<lparr>candidates = Some (c0\<lparr>content := None\<rparr> # cs0), usageMetadata = u\<rparr> = False
   \<and> isResponseComplete
        \<lparr>candidates = Some (c0\<lparr>content := Some (k0\<lparr>parts := None\<rparr>)\<rparr> # cs0),
         usageMetadata = u\<rparr> = False"
proof -
  have "isResponseComplete R \<longleftrightarrow>
      (\<exists>c cs. candidates R = Some (c # cs) \<and> sublist FINISHED_TOKEN (candidate_text c))"
  proof (cases "candidates R")
    case None
    then show ?thesis by (simp add: isResponseComplete_def)
  next
    case (Some xs)
    show ?thesis
    proof (cases xs)
      case Nil
      with Some show ?thesis by (simp add: isResponseComplete_def)
    next
      case (Cons c cs)
      with Some have "candidates R = Some (c # cs)" by simp
      then show ?thesis using isResponseComplete_Cons by simp
    qed
  qed
  then show ?thesis
    using isResponseComplete_no_candidate isResponseComplete_no_parts by simp
qed

section \<open>The resilient upstream client\<close>

declare makeGeminiRequestWithRetry.simps [simp del]

lemma fetch_count_step:
  "fetch_count (do_sleep ms (do_log l (do_fetch url request w))) = Suc (fetch_count w)"
  by (simp add: fetch_count_def do_sleep_def do_log_def do_fetch_def)

lemma fetch_count_do_fetch: "fetch_count (do_fetch url request w) = Suc (fetch_count w)"
  by (simp add: fetch_count_def do_fetch_def)

lemma sleeps_step:
  "sleeps (do_sleep ms (do_log l (do_fetch url request w))) = sleeps w @ [ms]"
  by (simp add: do_sleep_def do_log_def do_fetch_def)

lemma logged_step:
  "logged (do_sleep ms (do_log l (do_fetch url request w))) = logged w @ [l]"
  by (simp add: do_sleep_def do_log_def do_fetch_def)

lemma sent_step:
  "sent (do_sleep ms (do_log l (do_fetch url request w))) = sent w @ [(url, request)]"
  by (simp add: do_sleep_def do_log_def do_fetch_def)

lemma sent_do_fetch: "sent (do_fetch url request w) = sent w @ [(url, request)]"
  by (simp add: do_fetch_def)

lemma sleeps_do_fetch: "sleeps (do_fetch url request w) = sleeps w"
  by (simp add: do_fetch_def)

lemma logged_do_fetch: "logged (do_fetch url request w) = logged w"
  by (simp add: do_fetch_def)

text \<open>One failed attempt below the bound: the client sleeps and calls itself.\<close>

lemma retry_step:
  assumes "GEMINI_API_KEY e = Some k" "k \<noteq> []"
    and "upstream e (fetch_count w) = Resolved r" "\<not> ok r"
    and "retryCount < MAX_FETCH_RETRIES"
  shows "makeGeminiRequestWithRetry e request model searchParams isStreaming retryCount w =
         makeGeminiRequestWithRetry e request model searchParams isStreaming (retryCount + 1)
           (do_sleep (backoffDelay retryCount)
             (do_log (if status r \<in> set RETRYABLE_STATUS_CODES
                      then DebugRetryStatus (retryCount + 1) MAX_FETCH_RETRIES
                      else DebugRetryError (retryCount + 1) MAX_FETCH_RETRIES)
               (do_fetch (request_url model searchParams isStreaming) request w)))"
  using assms
  by (subst makeGeminiRequestWithRetry.simps) simp

lemma retry_exhausted:
  assumes "GEMINI_API_KEY e = Some k" "k \<noteq> []"
    and "upstream e (fetch_count w) = Resolved r" "\<not> ok r"
    and "\<not> retryCount < MAX_FETCH_RETRIES"
  shows "makeGeminiRequestWithRetry e request model searchParams isStreaming retryCount w =
         (Inl (StatusError (status r) (statusText r)),
          do_fetch (request_url model searchParams isStreaming) request w)"
  using assms
  by (subst makeGeminiRequestWithRetry.simps) simp

lemma retryable_not_ok: "status r \<in> set RETRYABLE_STATUS_CODES \<Longrightarrow> \<not> ok r"
  by (auto simp: RETRYABLE_STATUS_CODES_def ok_def)

lemma all_statuses_bad:
  assumes key: "GEMINI_API_KEY e = Some k" "k \<noteq> []"
    and bad: "\<forall>n\<ge>fetch_count w. \<exists>r. upstream e n = Resolved r \<and> \<not> ok r \<and>
                (status r \<in> set RETRYABLE_STATUS_CODES) = b"
    and d: "d = MAX_FETCH_RETRIES - retryCount" and le: "retryCount \<le> MAX_FETCH_RETRIES"
  shows "\<exists>r w'. makeGeminiRequestWithRetry e request model searchParams isStreaming retryCount w =
             (Inl (StatusError (status r) (statusText r)), w') \<and>
           upstream e (fetch_count w + d) = Resolved r \<and>
           sent w' = sent w @ replicate (d + 1) (request_url model searchParams isStreaming, request) \<and>
           sleeps w' = sleeps w @ map backoffDelay [retryCount..<MAX_FETCH_RETRIES] \<and>
           logged w' = logged w @ map (retry_entry b) [retryCount..<MAX_FETCH_RETRIES]"
  using bad d le
proof (induction d arbitrary: retryCount w)
  case 0
  then have rc: "\<not> retryCount < MAX_FETCH_RETRIES" and eq: "retryCount = MAX_FETCH_RETRIES"
    by simp_all
  from "0.prems"(1) obtain r where r: "upstream e (fetch_count w) = Resolved r" "\<not> ok r"
    by blast
  show ?case
    using retry_exhausted [OF key r rc, of request model searchParams isStreaming] r eq
    by (simp add: sent_do_fetch sleeps_do_fetch logged_do_fetch)
next
  case (Suc d)
  then have rc: "retryCount < MAX_FETCH_RETRIES" by simp
  from Suc.prems(1) obtain r where r: "upstream e (fetch_count w) = Resolved r" "\<not> ok r"
    and rb: "(status r \<in> set RETRYABLE_STATUS_CODES) = b"
    by blast
  let ?w = "do_sleep (backoffDelay retryCount)
             (do_log (retry_entry b retryCount)
               (do_fetch (request_url model searchParams isStreaming) request w))"
  have step: "makeGeminiRequestWithRetry e request model searchParams isStreaming retryCount w =
              makeGeminiRequestWithRetry e request model searchParams isStreaming (retryCount + 1) ?w"
    using retry_step [OF key r rc, of request model searchParams isStreaming] rb
    by (simp add: retry_entry_def)
  have fc: "fetch_count ?w = Suc (fetch_count w)" by (rule fetch_count_step)
  have bad': "\<forall>n\<ge>fetch_count ?w. \<exists>r. upstream e n = Resolved r \<and> \<not> ok r \<and>
                (status r \<in> set RETRYABLE_STATUS_CODES) = b"
    using Suc.prems(1) fc by simp
  have d': "d = MAX_FETCH_RETRIES - (retryCount + 1)" using Suc.prems(2) by simp
  have le': "retryCount + 1 \<le> MAX_FETCH_RETRIES" using rc by simp
  from Suc.IH [OF bad' d' le'] obtain r' w' where
    res: "makeGeminiRequestWithRetry e request model searchParams isStreaming (retryCount + 1) ?w =
            (Inl (StatusError (status r') (statusText r')), w')"
    and up: "upstream e (fetch_count ?w + d) = Resolved r'"
    and cnt: "sent w' = sent ?w @ replicate (d + 1) (request_url model searchParams isStreaming, request)"
    and sl: "sleeps w' = sleeps ?w @ map backoffDelay [retryCount + 1..<MAX_FETCH_RETRIES]"
    and lg: "logged w' = logged ?w @ map (retry_entry b) [retryCount + 1..<MAX_FETCH_RETRIES]"
    by blast
  have upt: "[retryCount..<MAX_FETCH_RETRIES] = retryCount # [retryCount + 1..<MAX_FETCH_RETRIES]"
    using rc by (simp add: upt_conv_Cons)
  show ?case
    using step res up cnt sl lg fc
    by (simp add: upt sleeps_step logged_step sent_step replicate_app_Cons_same)
qed

lemma upt_0_MAX: "[0..<MAX_FETCH_RETRIES] = [0, 1, 2]"
  by (simp add: MAX_FETCH_RETRIES_def upt_rec)

lemma sleeps_all: "map backoffDelay [0..<MAX_FETCH_RETRIES] = [1000, 2000, 4000]"
  unfolding upt_0_MAX by (simp add: backoffDelay_def)

lemma logs_status:
  "map (retry_entry True) [0..<MAX_FETCH_RETRIES] =
     [DebugRetryStatus 1 3, DebugRetryStatus 2 3, DebugRetryStatus 3 3]"
  unfolding upt_0_MAX by (simp add: retry_entry_def MAX_FETCH_RETRIES_def)

lemma logs_error:
  "map (retry_entry False) [0..<MAX_FETCH_RETRIES] =
     [DebugRetryError 1 3, DebugRetryError 2 3, DebugRetryError 3 3]"
  unfolding upt_0_MAX by (simp add: retry_entry_def MAX_FETCH_RETRIES_def)

text \<open>
  Claim C1. With the API key configured and the retry maximum 3, when every upstream
  attempt answers with a status of the retryable set, a first call of the client sends the
  request exactly four times (one initial attempt and three retries, after sleeping 1000,
  2000 and 4000 milliseconds) and then fails with the upstream error that carries the
  status of the fourth response.
\<close>

theorem retry_bound_retryable:
  assumes "GEMINI_API_KEY e = Some k" and "k \<noteq> []"
    and "\<forall>n. \<exists>r. upstream e n = Resolved r \<and> status r \<in> set RETRYABLE_STATUS_CODES"
  shows "\<exists>r w'.
           makeGeminiRequestWithRetry e request model searchParams isStreaming 0 w =
             (Inl (StatusError (status r) (statusText r)), w') \<and>
           upstream e (fetch_count w + 3) = Resolved r \<and>
           sent w' = sent w @ replicate 4 (request_url model searchParams isStreaming, request) \<and>
           sleeps w' = sleeps w @ [1000, 2000, 4000]"
proof -
  have bad: "\<forall>n\<ge>fetch_count w. \<exists>r. upstream e n = Resolved r \<and> \<not> ok r \<and>
               (status r \<in> set RETRYABLE_STATUS_CODES) = True"
    using assms(3) retryable_not_ok by auto
  have d: "3 = MAX_FETCH_RETRIES - 0" and le: "0 \<le> MAX_FETCH_RETRIES"
    by (simp_all add: MAX_FETCH_RETRIES_def)
  from all_statuses_bad [OF assms(1,2) bad d le, of request model searchParams isStreaming]
  show ?thesis
    unfolding sleeps_all logs_status by auto
qed

theorem retry_bound_retryable_witness:
  "fst (makeGeminiRequestWithRetry (env_always 503 ''Service Unavailable'') empty_request
          ''gemini-2.5-pro'' [] False 0 world0) = Inl (StatusError 503 ''Service Unavailable'') \<and>
   length (sent (snd (makeGeminiRequestWithRetry (env_always 503 ''Service Unavailable'')
          empty_request ''gemini-2.5-pro'' [] False 0 world0))) = 4"
proof -
  have k: "GEMINI_API_KEY (env_always 503 ''Service Unavailable'') = Some ''key''"
    by (simp add: env_always_def)
  have u: "\<forall>n. \<exists>r. upstream (env_always 503 ''Service Unavailable'') n = Resolved r \<and>
             status r \<in> set RETRYABLE_STATUS_CODES"
    by (simp add: env_always_def RETRYABLE_STATUS_CODES_def)
  from retry_bound_retryable [OF k _ u, of empty_request "''gemini-2.5-pro''" "[]" False world0]
  show ?thesis
    by (auto simp: env_always_def world0_def)
qed

text \<open>
  Claim C9. A response whose status is neither successful nor retryable does not end the
  call on an attempt below the bound: the error raised for it reaches the handler of
  network errors, which sleeps for the backoff delay and calls the client again with the
  next retry count. When every attempt answers with such a status, a first call sends the
  request four times, writes the retry line of that handler three times, and only then
  fails with the error of the fourth response.
\<close>

theorem bad_status_retried:
  assumes "GEMINI_API_KEY e = Some k" and "k \<noteq> []"
  shows "(\<forall>r. upstream e (fetch_count w) = Resolved r \<and> \<not> ok r \<and>
              status r \<notin> set RETRYABLE_STATUS_CODES \<and> retryCount < MAX_FETCH_RETRIES \<longrightarrow>
            makeGeminiRequestWithRetry e request model searchParams isStreaming retryCount w =
            makeGeminiRequestWithRetry e request model searchParams isStreaming (retryCount + 1)
              (do_sleep (backoffDelay retryCount)
                (do_log (DebugRetryError (retryCount + 1) MAX_FETCH_RETRIES)
                  (do_fetch (request_url model searchParams isStreaming) request w))))
       \<and>
         ((\<forall>n. \<exists>r. upstream e n = Resolved r \<and> \<not> ok r \<and>
                  status r \<notin> set RETRYABLE_STATUS_CODES) \<longrightarrow>
          (\<exists>r w'.
             makeGeminiRequestWithRetry e request model searchParams isStreaming 0 w =
               (Inl (StatusError (status r) (statusText r)), w') \<and>
             upstream e (fetch_count w + 3) = Resolved r \<and>
             sent w' = sent w @ replicate 4 (request_url model searchParams isStreaming, request) \<and>
             sleeps w' = sleeps w @ [1000, 2000, 4000] \<and>
             logged w' = logged w @ [DebugRetryError 1 3, DebugRetryError 2 3, DebugRetryError 3 3]))"
proof (intro conjI allI impI)
  fix r
  assume a: "upstream e (fetch_count w) = Resolved r \<and> \<not> ok r \<and>
             status r \<notin> set RETRYABLE_STATUS_CODES \<and> retryCount < MAX_FETCH_RETRIES"
  then have r: "upstream e (fetch_count w) = Resolved r" "\<not> ok r"
    and rc: "retryCount < MAX_FETCH_RETRIES" and nr: "status r \<notin> set RETRYABLE_STATUS_CODES"
    by simp_all
  show "makeGeminiRequestWithRetry e request model searchParams isStreaming retryCount w =
        makeGeminiRequestWithRetry e request model searchParams isStreaming (retryCount + 1)
          (do_sleep (backoffDelay retryCount)
            (do_log (DebugRetryError (retryCount + 1) MAX_FETCH_RETRIES)
              (do_fetch (request_url model searchParams isStreaming) request w)))"
    using retry_step [OF assms r rc, of request model searchParams isStreaming] nr by simp
next
  assume all: "\<forall>n. \<exists>r. upstream e n = Resolved r \<and> \<not> ok r \<and>
                 status r \<notin> set RETRYABLE_STATUS_CODES"
  have bad: "\<forall>n\<ge>fetch_count w. \<exists>r. upstream e n = Resolved r \<and> \<not> ok r \<and>
               (status r \<in> set RETRYABLE_STATUS_CODES) = False"
    using all by simp
  have d: "3 = MAX_FETCH_RETRIES - 0" and le: "0 \<le> MAX_FETCH_RETRIES"
    by (simp_all add: MAX_FETCH_RETRIES_def)
  from all_statuses_bad [OF assms bad d le, of request model searchParams isStreaming]
  show "\<exists>r w'.
          makeGeminiRequestWithRetry e request model searchParams isStreaming 0 w =
            (Inl (StatusError (status r) (statusText r)), w') \<and>
          upstream e (fetch_count w + 3) = Resolved r \<and>
          sent w' = sent w @ replicate 4 (request_url model searchParams isStreaming, request) \<and>
          sleeps w' = sleeps w @ [1000, 2000, 4000] \<and>
          logged w' = logged w @ [DebugRetryError 1 3, DebugRetryError 2 3, DebugRetryError 3 3]"
    unfolding sleeps_all logs_error by auto
qed

theorem bad_status_retried_witness:
  "fst (makeGeminiRequestWithRetry (env_always 500 ''Internal Server Error'') empty_request
          ''gemini-2.5-pro'' [] False 0 world0) = Inl (StatusError 500 ''Internal Server Error'') \<and>
   length (sent (snd (makeGeminiRequestWithRetry (env_always 500 ''Internal Server Error'')
          empty_request ''gemini-2.5-pro'' [] False 0 world0))) = 4 \<and>
   sleeps (snd (makeGeminiRequestWithRetry (env_always 500 ''Internal Server Error'')
          empty_request ''gemini-2.5-pro'' [] False 0 world0)) = [1000, 2000, 4000] \<and>
   makeGeminiRequestWithRetry (env_always 500 ''Internal Server Error'') empty_request
          ''gemini-2.5-pro'' [] False 0 world0 =
   makeGeminiRequestWithRetry (env_always 500 ''Internal Server Error'') empty_request
          ''gemini-2.5-pro'' [] False 1
          (do_sleep 1000 (do_log (DebugRetryError 1 3)
             (do_fetch (request_url ''gemini-2.5-pro'' [] False) empty_request world0)))"
proof -
  let ?e = "env_always 500 ''Internal Server Error''"
  have k: "GEMINI_API_KEY ?e = Some ''key''"
    by (simp add: env_always_def)
  have u: "\<forall>n. \<exists>r. upstream ?e n = Resolved r \<and> \<not> ok r \<and>
             status r \<notin> set RETRYABLE_STATUS_CODES"
    by (simp add: env_always_def RETRYABLE_STATUS_CODES_def ok_def)
  have one: "upstream ?e (fetch_count world0) =
               Resolved \<lparr>status = 500, statusText = ''Internal Server Error'', body = None\<rparr> \<and>
             \<not> ok \<lparr>status = 500, statusText = ''Internal Server Error'', body = None\<rparr> \<and>
             status \<lparr>status = 500, statusText = ''Internal Server Error'', body = None\<rparr>
               \<notin> set RETRYABLE_STATUS_CODES \<and> 0 < MAX_FETCH_RETRIES"
    by (simp add: env_always_def RETRYABLE_STATUS_CODES_def ok_def MAX_FETCH_RETRIES_def)
  note inst = bad_status_retried [OF k, of world0 0 empty_request "''gemini-2.5-pro''" "[]" False]
  have a: "makeGeminiRequestWithRetry ?e empty_request ''gemini-2.5-pro'' [] False 0 world0 =
           makeGeminiRequestWithRetry ?e empty_request ''gemini-2.5-pro'' [] False 1
             (do_sleep 1000 (do_log (DebugRetryError 1 3)
               (do_fetch (request_url ''gemini-2.5-pro'' [] False) empty_request world0)))"
    using inst one by (simp add: backoffDelay_def MAX_FETCH_RETRIES_def)
  have b: "\<exists>r w'.
             makeGeminiRequestWithRetry ?e empty_request ''gemini-2.5-pro'' [] False 0 world0 =
               (Inl (StatusError (status r) (statusText r)), w') \<and>
             upstream ?e (fetch_count world0 + 3) = Resolved r \<and>
             sent w' = sent world0 @ replicate 4 (request_url ''gemini-2.5-pro'' [] False, empty_request) \<and>
             sleeps w' = sleeps world0 @ [1000, 2000, 4000] \<and>
             logged w' = logged world0 @ [DebugRetryError 1 3, DebugRetryError 2 3, DebugRetryError 3 3]"
    using inst u by blast
  from b have c: "fst (makeGeminiRequestWithRetry ?e empty_request ''gemini-2.5-pro'' [] False 0 world0)
        = Inl (StatusError 500 ''Internal Server Error'') \<and>
      length (sent (snd (makeGeminiRequestWithRetry ?e empty_request ''gemini-2.5-pro'' [] False 0 world0))) = 4 \<and>
      sleeps (snd (makeGeminiRequestWithRetry ?e empty_request ''gemini-2.5-pro'' [] False 0 world0)) = [1000, 2000, 4000]"
    by (auto simp: env_always_def world0_def)
  show ?thesis using a c by blast
qed

lemma client_success:
  assumes "GEMINI_API_KEY e = Some k" "k \<noteq> []"
    and "upstream e (fetch_count w) = Resolved r" "ok r"
  shows "makeGeminiRequestWithRetry e request model searchParams isStreaming retryCount w =
         (Inr r, do_fetch (request_url model searchParams isStreaming) request w)"
  using assms
  by (subst makeGeminiRequestWithRetry.simps) simp

lemma client_no_key:
  "GEMINI_API_KEY e = None \<Longrightarrow>
   makeGeminiRequestWithRetry e request model searchParams isStreaming retryCount w =
     (Inl MissingApiKey, w)"
  by (subst makeGeminiRequestWithRetry.simps) simp

lemma ok_200: "ok \<lparr>status = 200, statusText = t, body = b\<rparr>"
  by (simp add: ok_def)

section \<open>The prompt augmenter\<close>

lemma augmenter_appends:
  assumes "systemInstruction request = Some a" and "parts (cells h a) = Some (p # ps)"
  shows "\<exists>h'. addAntiTruncationPrompt request h = Inr (request, h') \<and>
           systemInstruction_text request h' =
             Some (text_or_empty p @ ''\<newline>\<newline>'' @ FINISH_TOKEN_PROMPT)"
  using assms
  by (simp add: addAntiTruncationPrompt_def systemInstruction_text_def heap_write_def Let_def)

text \<open>
  Claim C2. The augmenter is claimed never to change the caller's request. At the request
  whose system instruction reads "Be brief." the returned copy refers to the same
  instruction object as the original, and the write of the augmenter goes to that object:
  after the call the original request's system instruction carries the appended mandate
  as well.
\<close>

theorem augmenter_mutates_original:
  "systemInstruction_text request1 heap1 = Some ''Be brief.'' \<and>
   (case addAntiTruncationPrompt request1 heap1 of
      Inl err \<Rightarrow> False
    | Inr (modifiedRequest, h') \<Rightarrow>
        modifiedRequest = request1 \<and>
        systemInstruction_text request1 h' =
          Some (''Be brief.'' @ ''\<newline>\<newline>'' @ FINISH_TOKEN_PROMPT))"
  by (simp add: addAntiTruncationPrompt_def systemInstruction_text_def heap_write_def Let_def
      request1_def heap1_def empty_request_def text_only_def text_or_empty_def)

text \<open>
  Claim C10. The augmenter returns a request exactly when the incoming request has no
  system instruction or has one whose parts hold at least one part; when the system
  instruction is present and its parts are absent or empty, the augmenter throws a
  \<^verbatim>\<open>TypeError\<close>.
\<close>

theorem augmenter_total_iff:
  "((\<exists>r. addAntiTruncationPrompt request h = Inr r) \<longleftrightarrow>
      (systemInstruction request = None \<or>
       (\<exists>a p ps. systemInstruction request = Some a \<and> parts (cells h a) = Some (p # ps))))
   \<and> (\<forall>a. systemInstruction request = Some a \<and>
            (parts (cells h a) = None \<or> parts (cells h a) = Some []) \<longrightarrow>
          addAntiTruncationPrompt request h = Inl TypeError)"
proof (cases "systemInstruction request")
  case None
  then show ?thesis
    by (simp add: addAntiTruncationPrompt_def heap_alloc_def Let_def)
next
  case (Some a)
  show ?thesis
  proof (cases "parts (cells h a)")
    case None
    with Some show ?thesis by (simp add: addAntiTruncationPrompt_def)
  next
    case ps: (Some ps)
    show ?thesis
    proof (cases ps)
      case Nil
      with Some ps show ?thesis by (simp add: addAntiTruncationPrompt_def)
    next
      case (Cons p ps')
      with Some ps show ?thesis by (simp add: addAntiTruncationPrompt_def Let_def)
    qed
  qed
qed

theorem augmenter_total_iff_witness:
  "addAntiTruncationPrompt request1 heap_no_parts = Inl TypeError \<and>
   (\<exists>r. addAntiTruncationPrompt request1 heap1 = Inr r)"
proof -
  have a: "systemInstruction request1 = Some 0 \<and>
        (parts (cells heap_no_parts 0) = None \<or> parts (cells heap_no_parts 0) = Some [])"
    by (simp add: request1_def heap_no_parts_def)
  have b: "systemInstruction request1 = None \<or>
       (\<exists>a p ps. systemInstruction request1 = Some a \<and> parts (cells heap1 a) = Some (p # ps))"
    by (simp add: request1_def heap1_def)
  from augmenter_total_iff [of request1 heap_no_parts] a
  have "addAntiTruncationPrompt request1 heap_no_parts = Inl TypeError" by blast
  moreover from augmenter_total_iff [of request1 heap1] b
  have "\<exists>r. addAntiTruncationPrompt request1 heap1 = Inr r" by blast
  ultimately show ?thesis by simp
qed

section \<open>The response combiner\<close>

lemma parts_text_text_only: "parts_text [text_only t] = t"
  by (simp add: parts_text_def js_join_def text_only_def text_or_empty_def)

lemma candidate0_text_Some:
  "candidates R = Some (c # cs) \<Longrightarrow> content c = Some k \<Longrightarrow> parts k = Some ps \<Longrightarrow>
     candidate0_text R = Inr (parts_text ps)"
  by (simp add: candidate0_text_def candidate0_def)

lemma combineResponses_Some:
  assumes "candidates incomplete = Some (ci # cis)" "content ci = Some ki" "parts ki = Some pi"
    and "candidates complete = Some (cc # ccs)" "content cc = Some kc" "parts kc = Some pc"
  shows "combineResponses incomplete complete =
     Inr \<lparr>candidates = Some
            [\<lparr>content = Some \<lparr>parts = Some [text_only
                   (js_trim (js_replace (parts_text pc) (parts_text pi) []))], role = role kc\<rparr>,
              finishReason = finishReason cc, safetyRatings = safetyRatings cc\<rparr>],
          usageMetadata = usageMetadata complete\<rparr>"
  using assms
  by (simp add: combineResponses_def candidate0_text_def candidate0_def)

text \<open>
  Claim C5 as stated asks only for one candidate in each response. With a continuation
  whose candidate 0 has no content, reading its parts throws and there is no combined
  result.
\<close>

theorem combineResponses_missing_content:
  "combineResponses (response_of_text ''Hello wor'') response_no_content = Inl TypeError"
  by (simp add: combineResponses_def candidate0_text_def candidate0_def response_of_text_def
      response_no_content_def)

text \<open>
  Claim C5, amended. For every pair of responses whose candidate 0 exists and has a
  content with parts: there is a combined result; if the continuation's concatenated text
  is the incomplete text followed by a string \<open>X\<close>, the text of the result is \<open>X\<close>
  trimmed; if the continuation's text does not contain the incomplete text, the text of
  the result is the continuation's text trimmed; and the usage metadata of the result is
  that of the continuation.
\<close>

theorem combineResponses_text:
  assumes "candidates incomplete = Some (ci # cis)" "content ci = Some ki" "parts ki = Some pi"
    and "candidates complete = Some (cc # ccs)" "content cc = Some kc" "parts kc = Some pc"
  shows "\<exists>result. combineResponses incomplete complete = Inr result \<and>
           (\<forall>X. parts_text pc = parts_text pi @ X \<longrightarrow> candidate0_text result = Inr (js_trim X)) \<and>
           (\<not> sublist (parts_text pi) (parts_text pc) \<longrightarrow>
              candidate0_text result = Inr (js_trim (parts_text pc))) \<and>
           usageMetadata result = usageMetadata complete"
  unfolding combineResponses_Some [OF assms]
  by (simp add: candidate0_text_def candidate0_def parts_text_text_only js_replace_prefix
      js_replace_absent)

theorem combineResponses_text_witness:
  "candidate0_text (projr (combineResponses (response_of_text ''Hello wor'')
       (response_of_text ''Hello world! ''))) = Inr ''ld!'' \<and>
   candidate0_text (projr (combineResponses (response_of_text ''Hello wor'')
       (response_of_text '' ld!''))) = Inr ''ld!''"
proof -
  have a: "candidates (response_of_text t) = Some (\<lparr>content = Some \<lparr>parts = Some [text_only t], role = Some ''model''\<rparr>,
                          finishReason = Some ''STOP'', safetyRatings = None\<rparr> # [])" for t
    by (simp add: response_of_text_def)
  have b: "content \<lparr>content = Some \<lparr>parts = Some [text_only t], role = Some ''model''\<rparr>,
                          finishReason = Some ''STOP'', safetyRatings = None\<rparr>
           = Some \<lparr>parts = Some [text_only t], role = Some ''model''\<rparr>" for t
    by simp
  have c: "parts \<lparr>parts = Some [text_only t], role = Some ''model''\<rparr> = Some [text_only t]" for t
    by simp
  from combineResponses_text [OF a b c a b c, of "''Hello wor''" "''Hello world! ''"]
  obtain r1 where r1: "combineResponses (response_of_text ''Hello wor'')
       (response_of_text ''Hello world! '') = Inr r1"
     and t1: "\<forall>X. parts_text [text_only ''Hello world! ''] = parts_text [text_only ''Hello wor''] @ X \<longrightarrow>
                candidate0_text r1 = Inr (js_trim X)"
    by blast
  have "parts_text [text_only ''Hello world! ''] = parts_text [text_only ''Hello wor''] @ ''ld! ''"
    by (simp add: parts_text_text_only)
  with t1 have "candidate0_text r1 = Inr (js_trim ''ld! '')" by blast
  then have one: "candidate0_text r1 = Inr ''ld!''" by (simp add: js_trim_def js_isSpace_def)
  from combineResponses_text [OF a b c a b c, of "''Hello wor''" "'' ld!''"]
  obtain r2 where r2: "combineResponses (response_of_text ''Hello wor'')
       (response_of_text '' ld!'') = Inr r2"
     and t2: "\<not> sublist (parts_text [text_only ''Hello wor'']) (parts_text [text_only '' ld!'']) \<longrightarrow>
                candidate0_text r2 = Inr (js_trim (parts_text [text_only '' ld!'']))"
    by blast
  have "\<not> sublist (parts_text [text_only ''Hello wor'']) (parts_text [text_only '' ld!''])"
    by (simp add: parts_text_text_only sublist_code)
  with t2 have "candidate0_text r2 = Inr (js_trim (parts_text [text_only '' ld!'']))" by blast
  then have two: "candidate0_text r2 = Inr ''ld!''"
    by (simp add: parts_text_text_only js_trim_def js_isSpace_def)
  show ?thesis using r1 one r2 two by simp
qed

section \<open>The non-streaming path\<close>

text \<open>Once the continuation request is built, the handler answers with a response.\<close>

lemma handleIncompleteResponse_after_build:
  assumes "createRetryRequest incompleteResponse originalRequest = Inr retryRequest"
  shows "\<exists>resp. fst (handleIncompleteResponse e incompleteResponse originalRequest model
                       searchParams w) = Inr resp"
  using assms
  by (auto simp: handleIncompleteResponse_def Let_def split: prod.splits sum.splits option.splits)

lemma handleIncompleteResponse_send_fails:
  assumes "createRetryRequest incompleteResponse originalRequest = Inr retryRequest"
    and "fst (makeGeminiRequestWithRetry e retryRequest model searchParams False 0
                (do_log DebugIncomplete w)) = Inl err"
  shows "fst (handleIncompleteResponse e incompleteResponse originalRequest model searchParams w) =
           Inr (fallback_response incompleteResponse)"
  using assms
  by (auto simp: handleIncompleteResponse_def Let_def split: prod.splits sum.splits option.splits)

text \<open>
  Claim C4. The value returned on the incomplete path is claimed to be the combined result
  with the completion markers stripped. In the scenario where the first upstream response
  reads "Hello wor" and the continuation reads "ld!" followed by the finished marker, the
  handler returns the combined response as \<^verbatim>\<open>combineResponses\<close> built it: its text still
  ends with the finished marker, since only the complete path calls \<^verbatim>\<open>cleanResponse\<close>.
\<close>

theorem incomplete_path_keeps_marker:
  "fst (handleNonStreamingRequest env_scenario empty_request ''gemini-2.5-pro'' [] heap0 world0) =
     Inr \<lparr>out_status = 200, out_body = JsonBody (response_of_text ''ld![RESPONSE_FINISHED]'')\<rparr>"
proof -
  let ?h = "snd (heap_alloc \<lparr>parts = Some [text_only FINISH_TOKEN_PROMPT], role = Some ''user''\<rparr> heap0)"
  let ?req = "empty_request\<lparr>systemInstruction := Some 0\<rparr>"
  let ?url = "request_url ''gemini-2.5-pro'' [] False"
  let ?r0 = "\<lparr>status = 200, statusText = ''OK'', body = Some (response_of_text ''Hello wor'')\<rparr>"
  let ?r1 = "\<lparr>status = 200, statusText = ''OK'', body = Some (response_of_text ''ld![RESPONSE_FINISHED]'')\<rparr>"
  have key: "GEMINI_API_KEY env_scenario = Some ''key''" "''key'' \<noteq> []"
    by (simp_all add: env_scenario_def)
  have aug: "addAntiTruncationPrompt empty_request heap0 = Inr (?req, ?h)"
    by (simp add: addAntiTruncationPrompt_def empty_request_def heap_alloc_def heap0_def)
  have first: "makeGeminiRequestWithRetry env_scenario ?req ''gemini-2.5-pro'' [] False 0 world0 =
        (Inr ?r0, do_fetch ?url ?req world0)"
    by (rule client_success [OF key]) (simp_all add: env_scenario_def world0_def fetch_count_def http_ok_def ok_def)
  have inc: "\<not> isResponseComplete (response_of_text ''Hello wor'')"
    by (simp add: isResponseComplete_def response_of_text_def parts_text_text_only FINISHED_TOKEN_def)
  let ?w1 = "do_log DebugIncomplete (do_fetch ?url ?req world0)"
  obtain rr where rr: "createRetryRequest (response_of_text ''Hello wor'') ?req = Inr rr"
    by (simp add: createRetryRequest_def candidate0_text_def candidate0_def response_of_text_def
        empty_request_def)
  have second: "makeGeminiRequestWithRetry env_scenario rr ''gemini-2.5-pro'' [] False 0 ?w1 =
        (Inr ?r1, do_fetch ?url rr ?w1)"
    by (rule client_success [OF key])
      (simp_all add: env_scenario_def world0_def fetch_count_def http_ok_def ok_def do_log_def do_fetch_def)
  have comb: "combineResponses (response_of_text ''Hello wor'') (response_of_text ''ld![RESPONSE_FINISHED]'')
        = Inr (response_of_text ''ld![RESPONSE_FINISHED]'')"
    by (simp add: combineResponses_def candidate0_text_def candidate0_def response_of_text_def
        parts_text_text_only js_trim_def js_isSpace_def)
  have "fst (handleIncompleteResponse env_scenario (response_of_text ''Hello wor'') ?req
          ''gemini-2.5-pro'' [] (do_fetch ?url ?req world0)) =
        Inr \<lparr>out_status = 200, out_body = JsonBody (response_of_text ''ld![RESPONSE_FINISHED]'')\<rparr>"
    by (simp add: handleIncompleteResponse_def rr second comb)
  then show ?thesis
    by (simp add: handleNonStreamingRequest_def aug first inc case_prod_beta)
qed

text \<open>
  Claim C7. A failure while the continuation is built is claimed to fall back to the
  incomplete response with status 200. When the first upstream response has an empty
  candidate list, the detector classifies it as incomplete, building the continuation
  request throws a \<^verbatim>\<open>TypeError\<close> before the \<^verbatim>\<open>try\<close> of \<^verbatim>\<open>handleIncompleteResponse\<close>
  is entered, and the error is the result of that handler and of
  \<^verbatim>\<open>handleNonStreamingRequest\<close>.
\<close>

theorem build_failure_escapes:
  "handleIncompleteResponse env_no_candidates response_no_candidates empty_request
       ''gemini-2.5-pro'' [] world0 = (Inl TypeError, do_log DebugIncomplete world0) \<and>
   fst (handleNonStreamingRequest env_no_candidates empty_request ''gemini-2.5-pro'' [] heap0 world0) =
     Inl TypeError"
proof -
  let ?h = "snd (heap_alloc \<lparr>parts = Some [text_only FINISH_TOKEN_PROMPT], role = Some ''user''\<rparr> heap0)"
  let ?req = "empty_request\<lparr>systemInstruction := Some 0\<rparr>"
  let ?url = "request_url ''gemini-2.5-pro'' [] False"
  let ?r0 = "\<lparr>status = 200, statusText = ''OK'', body = Some response_no_candidates\<rparr>"
  have key: "GEMINI_API_KEY env_no_candidates = Some ''key''" "''key'' \<noteq> []"
    by (simp_all add: env_no_candidates_def)
  have aug: "addAntiTruncationPrompt empty_request heap0 = Inr (?req, ?h)"
    by (simp add: addAntiTruncationPrompt_def empty_request_def heap_alloc_def heap0_def)
  have first: "makeGeminiRequestWithRetry env_no_candidates ?req ''gemini-2.5-pro'' [] False 0 world0 =
        (Inr ?r0, do_fetch ?url ?req world0)"
    by (rule client_success [OF key])
      (simp_all add: env_no_candidates_def world0_def fetch_count_def http_ok_def ok_def)
  have inc: "\<not> isResponseComplete response_no_candidates"
    by (simp add: isResponseComplete_def response_no_candidates_def)
  have build: "createRetryRequest response_no_candidates r = Inl TypeError" for r
    by (simp add: createRetryRequest_def candidate0_text_def candidate0_def response_no_candidates_def)
  have hi: "handleIncompleteResponse env_no_candidates response_no_candidates r m s w =
        (Inl TypeError, do_log DebugIncomplete w)" for r m s w
    by (simp add: handleIncompleteResponse_def build)
  show ?thesis
    by (simp add: handleNonStreamingRequest_def aug first inc hi)
qed

section \<open>The stream chunk transformer\<close>

lemma queue_enqueue: "queue (enqueue s c) = queue c @ [s]"
  by (simp add: enqueue_def)

lemma queue_stream_log_add: "queue (stream_log_add l c) = queue c"
  by (simp add: stream_log_add_def)

lemma queue_transform_line:
  "queue (transform_line parse stringify line c) = queue c @ emitted parse stringify line"
  by (simp add: emitted_def transform_line_def Let_def queue_enqueue queue_stream_log_add
      split: option.splits sum.splits)

lemma queue_transform_lines:
  "queue (transform_lines parse stringify lines c) =
     queue c @ concat (map (emitted parse stringify) lines)"
proof (induction lines arbitrary: c)
  case Nil
  show ?case by simp
next
  case (Cons line lines)
  show ?case
    by (simp add: Cons.IH queue_transform_line)
qed

lemma emitted_other_line:
  "\<not> js_startsWith line ''data: '' \<Longrightarrow> emitted parse stringify line = [line @ ''\<newline>'']"
  by (simp add: emitted_def transform_line_def queue_enqueue)

lemma emitted_unparsed_line:
  "js_startsWith line ''data: '' \<Longrightarrow> parse (js_slice_from 6 line) = None \<Longrightarrow>
     emitted parse stringify line = [line @ ''\<newline>'']"
  by (simp add: emitted_def transform_line_def Let_def queue_enqueue queue_stream_log_add)

lemma split1: "js_split_lines ''event: ping\<newline>\<newline>'' = [''event: ping'', [], []]"
  by simp

lemma lines1: "chunk_lines ''event: ping\<newline>\<newline>'' = [''event: ping'']"
  unfolding chunk_lines_def split1 by (simp add: js_trim_def js_isSpace_def)

lemma not_data_Nil: "\<not> js_startsWith [] ''data: ''"
  by (simp add: js_startsWith_def)

lemma not_data_event: "\<not> js_startsWith ''event: ping'' ''data: ''"
  by (simp add: js_startsWith_def)

text \<open>
  Claim C3 as stated has every line without the event-data prefix passed through, blank
  separator lines included. The chunk made of the line "event: ping" and a blank line
  gives the lines "event: ping", "" and ""; the empty lines do not start with the prefix,
  and the output holds the first line only.
\<close>

theorem transform_drops_blank_lines:
  "js_split_lines ''event: ping\<newline>\<newline>'' = [''event: ping'', [], []] \<and>
   \<not> js_startsWith [] ''data: '' \<and>
   queue (transform toy_parse toy_stringify ''event: ping\<newline>\<newline>'' controller0) =
     [''event: ping\<newline>'']"
  unfolding transform_def lines1 split1
  by (simp add: not_data_Nil queue_transform_line emitted_other_line not_data_event controller0_def)

text \<open>
  Claim C3, amended. For every stream chunk, the lines that are empty after trimming are
  dropped before the loop; the output is the concatenation, in input order, of what each
  remaining line emits; a remaining line that does not start with the event-data prefix
  is emitted unchanged, followed by a newline; and a line whose event-data payload fails
  to parse is emitted unchanged, followed by a newline. The transformer is a total
  function of the chunk: a malformed payload raises nothing.
\<close>

theorem transform_lines_in_order:
  "queue (transform parse stringify chunk c) =
     queue c @ concat (map (emitted parse stringify) (chunk_lines chunk))
   \<and> chunk_lines chunk = filter (\<lambda>line. js_trim line \<noteq> []) (js_split_lines chunk)
   \<and> (\<forall>line. \<not> js_startsWith line ''data: '' \<longrightarrow>
          emitted parse stringify line = [line @ ''\<newline>''])
   \<and> (\<forall>line. js_startsWith line ''data: '' \<and> parse (js_slice_from 6 line) = None \<longrightarrow>
          emitted parse stringify line = [line @ ''\<newline>''])"
proof (intro conjI allI impI)
  show "queue (transform parse stringify chunk c) =
     queue c @ concat (map (emitted parse stringify) (chunk_lines chunk))"
    unfolding transform_def by (rule queue_transform_lines)
  show "chunk_lines chunk = filter (\<lambda>line. js_trim line \<noteq> []) (js_split_lines chunk)"
    by (rule chunk_lines_def)
next
  fix line
  assume "\<not> js_startsWith line ''data: ''"
  then show "emitted parse stringify line = [line @ ''\<newline>'']"
    by (rule emitted_other_line)
next
  fix line
  assume "js_startsWith line ''data: '' \<and> parse (js_slice_from 6 line) = None"
  then show "emitted parse stringify line = [line @ ''\<newline>'']"
    using emitted_unparsed_line by blast
qed

lemma split2:
  "js_split_lines ''data: {}\<newline>\<newline>event: ping\<newline>data: {malformed\<newline>\<newline>'' =
     [''data: {}'', [], ''event: ping'', ''data: {malformed'', [], []]"
  by simp

lemma lines2:
  "chunk_lines ''data: {}\<newline>\<newline>event: ping\<newline>data: {malformed\<newline>\<newline>'' =
     [''data: {}'', ''event: ping'', ''data: {malformed'']"
  unfolding chunk_lines_def split2 by (simp add: js_trim_def js_isSpace_def)

lemma data_malformed:
  "js_startsWith ''data: {malformed'' ''data: '' \<and>
   toy_parse (js_slice_from 6 ''data: {malformed'') = None"
  by (simp add: js_startsWith_def js_slice_from_def)

lemma data_empty_object:
  "js_startsWith ''data: {}'' ''data: ''"
  "js_slice_from 6 ''data: {}'' = ''{}''"
  "js_trim ''{}'' = ''{}''"
  by (simp_all add: js_startsWith_def js_slice_from_def js_trim_def js_isSpace_def)

lemma emitted_empty_object:
  "emitted toy_parse toy_stringify ''data: {}'' = [''data: {}\<newline>\<newline>'']"
  by (simp add: emitted_def transform_line_def Let_def data_empty_object queue_enqueue
      processStreamChunk_object_def)

theorem transform_lines_in_order_witness:
  "queue (transform toy_parse toy_stringify
            ''data: {}\<newline>\<newline>event: ping\<newline>data: {malformed\<newline>\<newline>'' controller0) =
     [''data: {}\<newline>\<newline>'', ''event: ping\<newline>'', ''data: {malformed\<newline>'']"
proof -
  let ?chunk = "''data: {}\<newline>\<newline>event: ping\<newline>data: {malformed\<newline>\<newline>''"
  note inst = transform_lines_in_order [of toy_parse toy_stringify ?chunk controller0]
  note q = inst [THEN conjunct1]
  note other = inst [THEN conjunct2, THEN conjunct2, THEN conjunct1]
  note unparsed = inst [THEN conjunct2, THEN conjunct2, THEN conjunct2]
  have e1: "emitted toy_parse toy_stringify ''event: ping'' = [''event: ping\<newline>'']"
    using other [rule_format, OF not_data_event] by simp
  have e2: "emitted toy_parse toy_stringify ''data: {malformed'' = [''data: {malformed\<newline>'']"
    using unparsed [rule_format, OF data_malformed] by simp
  show ?thesis
    unfolding q lines2 by (simp add: emitted_empty_object e1 e2 controller0_def)
qed

section \<open>Token cleanup\<close>

lemma token_heads:
  "FINISHED_TOKEN = CHR ''['' # ''RESPONSE_FINISHED]''"
  "INCOMPLETE_TOKEN = CHR ''['' # ''RESPONSE_NOT_FINISHED]''"
  "REMINDER_PROMPT =
     CHR ''['' # ''REMINDER] Strictly adhere to the Final Output Protocol upon completion.''"
  by (simp_all add: FINISHED_TOKEN_def INCOMPLETE_TOKEN_def REMINDER_PROMPT_def)

lemma token_tails:
  "CHR ''['' \<notin> set ''RESPONSE_FINISHED]''"
  "CHR ''['' \<notin> set ''RESPONSE_NOT_FINISHED]''"
  "CHR ''['' \<notin> set ''REMINDER] Strictly adhere to the Final Output Protocol upon completion.''"
  by simp_all

lemma strip_finished:
  assumes "CHR ''['' \<notin> set A" "CHR ''['' \<notin> set B"
  shows "strip_tokens (A @ FINISHED_TOKEN @ B) = A @ B"
proof -
  have "js_replace (A @ FINISHED_TOKEN @ B) FINISHED_TOKEN [] = A @ B"
    using js_replace_skip [OF assms(1), of "FINISHED_TOKEN @ B" "''RESPONSE_FINISHED]''" "[]"]
      js_replace_prefix [of FINISHED_TOKEN B]
    by (simp add: token_heads(1) [symmetric])
  moreover have "js_replace (A @ B) INCOMPLETE_TOKEN [] = A @ B"
    unfolding token_heads using assms by (intro js_replace_nochar) simp
  moreover have "js_replace (A @ B) REMINDER_PROMPT [] = A @ B"
    unfolding token_heads using assms by (intro js_replace_nochar) simp
  ultimately show ?thesis by (simp add: strip_tokens_def)
qed

lemma strip_incomplete:
  assumes "CHR ''['' \<notin> set A" "CHR ''['' \<notin> set B"
  shows "strip_tokens (A @ INCOMPLETE_TOKEN @ B) = A @ B"
proof -
  have "js_replace (INCOMPLETE_TOKEN @ B) FINISHED_TOKEN [] = INCOMPLETE_TOKEN @ B"
    unfolding token_heads using assms(2) by (intro js_replace_other) simp_all
  then have "js_replace (A @ INCOMPLETE_TOKEN @ B) FINISHED_TOKEN [] = A @ INCOMPLETE_TOKEN @ B"
    using js_replace_skip [OF assms(1), of "INCOMPLETE_TOKEN @ B" "''RESPONSE_FINISHED]''" "[]"]
    by (simp add: token_heads(1) [symmetric])
  moreover have "js_replace (A @ INCOMPLETE_TOKEN @ B) INCOMPLETE_TOKEN [] = A @ B"
    using js_replace_skip [OF assms(1), of "INCOMPLETE_TOKEN @ B" "''RESPONSE_NOT_FINISHED]''" "[]"]
      js_replace_prefix [of INCOMPLETE_TOKEN B]
    by (simp add: token_heads(2) [symmetric])
  moreover have "js_replace (A @ B) REMINDER_PROMPT [] = A @ B"
    unfolding token_heads using assms by (intro js_replace_nochar) simp
  ultimately show ?thesis by (simp add: strip_tokens_def)
qed

lemma strip_reminder:
  assumes "CHR ''['' \<notin> set A" "CHR ''['' \<notin> set B"
  shows "strip_tokens (A @ REMINDER_PROMPT @ B) = A @ B"
proof -
  have "js_replace (REMINDER_PROMPT @ B) FINISHED_TOKEN [] = REMINDER_PROMPT @ B"
    unfolding token_heads using assms(2) by (intro js_replace_other) simp_all
  then have f: "js_replace (A @ REMINDER_PROMPT @ B) FINISHED_TOKEN [] = A @ REMINDER_PROMPT @ B"
    using js_replace_skip [OF assms(1), of "REMINDER_PROMPT @ B" "''RESPONSE_FINISHED]''" "[]"]
    by (simp add: token_heads(1) [symmetric])
  have "js_replace (REMINDER_PROMPT @ B) INCOMPLETE_TOKEN [] = REMINDER_PROMPT @ B"
    unfolding token_heads using assms(2) by (intro js_replace_other) simp_all
  then have i: "js_replace (A @ REMINDER_PROMPT @ B) INCOMPLETE_TOKEN [] = A @ REMINDER_PROMPT @ B"
    using js_replace_skip [OF assms(1), of "REMINDER_PROMPT @ B" "''RESPONSE_NOT_FINISHED]''" "[]"]
    by (simp add: token_heads(2) [symmetric])
  have r: "js_replace (A @ REMINDER_PROMPT @ B) REMINDER_PROMPT [] = A @ B"
    using js_replace_skip [OF assms(1), of "REMINDER_PROMPT @ B"
        "''REMINDER] Strictly adhere to the Final Output Protocol upon completion.''" "[]"]
      js_replace_prefix [of REMINDER_PROMPT B]
    by (simp add: token_heads(3) [symmetric])
  show ?thesis by (simp add: strip_tokens_def f i r)
qed

lemma strip_single_token:
  assumes "T \<in> set protocol_tokens" "CHR ''['' \<notin> set A" "CHR ''['' \<notin> set B"
  shows "strip_tokens (A @ T @ B) = A @ B"
  using assms strip_finished strip_incomplete strip_reminder
  by (auto simp: protocol_tokens_def)

lemma no_token_without_bracket:
  assumes "T \<in> set protocol_tokens" "CHR ''['' \<notin> set s"
  shows "\<not> sublist T s"
  using assms no_sublist_nochar [of "CHR ''[''" s]
  by (auto simp: protocol_tokens_def token_heads)

lemma processStreamChunk_candidate0:
  assumes "candidates R = Some (c # cs)" "content c = Some k" "parts k = Some ps"
  shows "processStreamChunk (JObject R) =
           Inr (JObject (R\<lparr>candidates :=
             Some (c\<lparr>content := Some (k\<lparr>parts := Some (map clean_stream_part ps)\<rparr>)\<rparr> # cs)\<rparr>))"
  using assms by (simp add: processStreamChunk_object_def)

lemma cleanResponse_candidate0:
  assumes "candidates R = Some (c # cs)" "content c = Some k" "parts k = Some ps"
  shows "cleanResponse R =
           R\<lparr>candidates :=
             Some (c\<lparr>content := Some (k\<lparr>parts := Some (map clean_part ps)\<rparr>)\<rparr> # cs)\<rparr>"
  using assms by (simp add: cleanResponse_def)

lemma clean_part_text:
  "text_part p = Some t \<Longrightarrow> t \<noteq> [] \<Longrightarrow>
     text_part (clean_stream_part p) = Some (strip_tokens t) \<and>
     text_part (clean_part p) = Some (js_trim (strip_tokens t))"
  by (simp add: clean_stream_part_def clean_part_def)

lemma token_not_Nil: "T \<in> set protocol_tokens \<Longrightarrow> T \<noteq> []"
  by (auto simp: protocol_tokens_def token_heads)

lemma clean_single_token:
  assumes T: "T \<in> set protocol_tokens" and p: "text_part p = Some (A @ T @ B)"
    and A: "CHR ''['' \<notin> set A" and B: "CHR ''['' \<notin> set B"
  shows "text_part (clean_stream_part p) = Some (A @ B) \<and>
         text_part (clean_part p) = Some (js_trim (A @ B)) \<and>
         (\<forall>T'\<in>set protocol_tokens. \<not> sublist T' (A @ B) \<and> \<not> sublist T' (js_trim (A @ B)))"
proof -
  have ne: "A @ T @ B \<noteq> []" using token_not_Nil [OF T] by simp
  have s: "strip_tokens (A @ T @ B) = A @ B" by (rule strip_single_token [OF T A B])
  have nb: "CHR ''['' \<notin> set (A @ B)" using A B by simp
  then have nt: "CHR ''['' \<notin> set (js_trim (A @ B))" using set_js_trim by blast
  show ?thesis
    using clean_part_text [OF p ne] s no_token_without_bracket [OF _ nb]
      no_token_without_bracket [OF _ nt]
    by simp
qed

text \<open>
  Claim C8. The cleanup is to strip the finished marker, the incomplete marker and the
  reminder string from every text part, so that no cleaned text part contains any of the
  three tokens. A string pattern given to \<^verbatim>\<open>replace\<close> rewrites one occurrence only: from
  a text part that carries the finished marker twice, both \<^verbatim>\<open>processStreamChunk\<close> and
  \<^verbatim>\<open>cleanResponse\<close> remove the first occurrence and emit the second, so the cleaned part
  still contains the finished marker.
\<close>

theorem cleanup_leaves_second_marker:
  "processStreamChunk (JObject (response_of_text ''a[RESPONSE_FINISHED]b[RESPONSE_FINISHED]'')) =
     Inr (JObject (response_of_text ''ab[RESPONSE_FINISHED]'')) \<and>
   cleanResponse (response_of_text ''a[RESPONSE_FINISHED]b[RESPONSE_FINISHED]'') =
     response_of_text ''ab[RESPONSE_FINISHED]'' \<and>
   sublist FINISHED_TOKEN ''ab[RESPONSE_FINISHED]''"
proof -
  have s: "strip_tokens ''a[RESPONSE_FINISHED]b[RESPONSE_FINISHED]'' = ''ab[RESPONSE_FINISHED]''"
    by (simp add: strip_tokens_def FINISHED_TOKEN_def INCOMPLETE_TOKEN_def REMINDER_PROMPT_def)
  have t: "js_trim ''ab[RESPONSE_FINISHED]'' = ''ab[RESPONSE_FINISHED]''"
    by (simp add: js_trim_def js_isSpace_def)
  have sub: "sublist FINISHED_TOKEN ''ab[RESPONSE_FINISHED]''"
    unfolding FINISHED_TOKEN_def by (simp add: sublist_code)
  show ?thesis
    by (simp add: response_of_text_def processStreamChunk_object_def cleanResponse_def
        clean_stream_part_def clean_part_def text_only_def s t sub)
qed

end
